theory Spec2Isabelle
  imports
    Complex_Main
    "HOL-Library.Word"
    "HOL-Library.Char_ord"
    "HOL-Library.List_Lexorder"
    "HOL-Library.Sublist"
begin

section \<open>Values\<close>

text \<open>
  The script \<^verbatim>\<open>analyze_gas_results.py\<close> is glue around pandas, scikit-learn and
  matplotlib. The embedding keeps the script's own logic (feature construction, lookups,
  control flow, error handling, the code template) as definitions, and takes the numeric
  and rendering routines of those libraries as the fields of one record, \<open>libs\<close>, so
  that every theorem holds for whatever these routines compute.

  A Python \<^verbatim>\<open>str\<close> is modelled by its UTF-8 bytes. A float is a rational (every
  binary64 value is one), a signed zero, an infinity or NaN. Exceptions are values of
  \<open>error\<close>.
\<close>

datatype error =
    FileNotFoundError
  | KeyError string
  | ValueError
  | ParserError

datatype float64 = Finite rat | NegZero | PosInf | NegInf | NaN

datatype cell = IntCell int | FloatCell float64 | BoolCell bool | StrCell string

type_synonym frame = "(string \<times> cell list) list"

text \<open>One benchmark observation, as \<^verbatim>\<open>pd.read_csv\<close> hands it over: a missing label
  is \<open>None\<close>, \<open>Rows\<close> and \<open>Columns\<close> are int64, the gas columns are numeric.\<close>

record row =
  Operation :: "string option"
  FilterComplexity :: "string option"
  Rows :: "64 word"
  Columns :: "64 word"
  OpenJobGas :: float64
  PushRowTotal :: float64
  PushRowAvg :: float64
  FinalizeGas :: float64
  TotalGas :: float64

text \<open>The table after \<^verbatim>\<open>df['FilterBytes'] = ...\<close>: one more column.\<close>

record prow = row +
  FilterBytes :: "int option"

record model =
  model_intercept :: float64
  model_coef :: "float64 list"

record coef_row =
  Feature :: string
  Coefficient :: float64
  Impact :: float64

type_synonym table = "string list \<times> (string \<times> float64 list) list"

subsection \<open>Comparison of floats\<close>

text \<open>\<^verbatim>\<open>a <= b\<close> on floats: false as soon as one side is NaN; the two zeros are equal.\<close>

fun float_le :: "float64 \<Rightarrow> float64 \<Rightarrow> bool" where
  "float_le NaN _ = False"
| "float_le _ NaN = False"
| "float_le NegInf _ = True"
| "float_le _ PosInf = True"
| "float_le PosInf _ = False"
| "float_le _ NegInf = False"
| "float_le (Finite a) (Finite b) = (a \<le> b)"
| "float_le (Finite a) NegZero = (a \<le> 0)"
| "float_le NegZero (Finite b) = (0 \<le> b)"
| "float_le NegZero NegZero = True"

definition float_ge :: "float64 \<Rightarrow> float64 \<Rightarrow> bool" where
  "float_ge a b = float_le b a"

subsection \<open>Formatting\<close>

definition newline :: string where
  "newline = [CHR 0x0A]"

definition digit_char :: "nat \<Rightarrow> char" where
  "digit_char n = ''0123456789'' ! n"

fun show_nat :: "nat \<Rightarrow> string" where
  "show_nat n = (if n < 10 then [digit_char n] else show_nat (n div 10) @ [digit_char (n mod 10)])"

text \<open>The thousands separator of the format specification \<^verbatim>\<open>,\<close>: groups of three
  digits counted from the right. The argument is the digit string reversed.\<close>

fun group3_rev :: "string \<Rightarrow> string" where
  "group3_rev (a # b # c # d # r) = a # b # c # CHR '','' # group3_rev (d # r)"
| "group3_rev ds = ds"

definition commas :: "string \<Rightarrow> string" where
  "commas ds = rev (group3_rev (rev ds))"

definition round_half_even :: "rat \<Rightarrow> int" where
  "round_half_even q =
     (let f = \<lfloor>q\<rfloor>; r = q - of_int f
      in if r < 1 / 2 then f else if 1 / 2 < r then f + 1 else if even f then f else f + 1)"

text \<open>\<^verbatim>\<open>format(x, '.df')\<close> and \<^verbatim>\<open>format(x, ',.df')\<close>: the exact value rounded to \<open>d\<close>
  decimals, ties to even; the sign is kept when a negative value rounds to zero.\<close>

definition fixed_digits :: "nat \<Rightarrow> bool \<Rightarrow> int \<Rightarrow> string" where
  "fixed_digits d comma scaled =
     (let ip = show_nat (nat (scaled div 10 ^ d));
          fp = show_nat (nat (scaled mod 10 ^ d))
      in (if comma then commas ip else ip) @
         (if d = 0 then [] else ''.'' @ replicate (d - length fp) CHR ''0'' @ fp))"

fun format_f :: "nat \<Rightarrow> bool \<Rightarrow> float64 \<Rightarrow> string" where
  "format_f d comma (Finite q) =
     (if q < 0 then ''-'' else []) @ fixed_digits d comma (round_half_even (\<bar>q\<bar> * 10 ^ d))"
| "format_f d comma NegZero = ''-'' @ fixed_digits d comma 0"
| "format_f d comma PosInf = ''inf''"
| "format_f d comma NegInf = ''-inf''"
| "format_f d comma NaN = ''nan''"

section \<open>The libraries\<close>

text \<open>
  What the script calls and does not define: the CSV parser, the named reductions of
  pandas (\<^verbatim>\<open>'mean'\<close>, \<^verbatim>\<open>'min'\<close>, \<^verbatim>\<open>'max'\<close>, \<^verbatim>\<open>'std'\<close>), binary64 multiplication and
  division, the least-squares fit and its metrics, the textual rendering of tables and
  exceptions, and the rendering of the figure.
\<close>

datatype figure = Figure
  (actual_vs_predicted: "float64 list \<times> float64 list \<times> float64 \<times> float64")
  (box_by_operation: "(string \<times> float64 list) list")
  (top_coefficients: "(string \<times> float64) list")
  (scaling_with_rows: "(string option \<times> int list \<times> float64 list) list")

record libs =
  parse_csv :: "string \<Rightarrow> error + row list"
  agg_fn :: "string \<Rightarrow> float64 list \<Rightarrow> float64"
  fmul :: "float64 \<Rightarrow> float64 \<Rightarrow> float64"
  fdiv :: "float64 \<Rightarrow> float64 \<Rightarrow> float64"
  lr_fit :: "frame \<Rightarrow> cell list \<Rightarrow> error + model"
  lr_predict :: "model \<Rightarrow> frame \<Rightarrow> float64 list"
  r2_score :: "cell list \<Rightarrow> float64 list \<Rightarrow> error + float64"
  mean_absolute_percentage_error :: "cell list \<Rightarrow> float64 list \<Rightarrow> error + float64"
  str_columns :: "row list \<Rightarrow> string"
  str_frame :: "prow list \<Rightarrow> string"
  str_table :: "table \<Rightarrow> string"
  to_string :: "coef_row list \<Rightarrow> string"
  str_error :: "error \<Rightarrow> string"
  format_exc :: "error \<Rightarrow> string"
  savefig :: "figure \<Rightarrow> string"

section \<open>The process\<close>

text \<open>The state a run can touch: the files, the two output streams (one entry per
  \<^verbatim>\<open>print\<close> call) and the log of the paths opened for reading.\<close>

record world =
  files :: "string \<Rightarrow> string option"
  stdout :: "string list"
  stderr :: "string list"
  reads :: "string list"

type_synonym 'a io = "world \<Rightarrow> (error + 'a) \<times> world"

definition return :: "'a \<Rightarrow> 'a io" where
  "return x = (\<lambda>w. (Inr x, w))"

definition raise :: "error \<Rightarrow> 'a io" where
  "raise e = (\<lambda>w. (Inl e, w))"

definition bind :: "'a io \<Rightarrow> ('a \<Rightarrow> 'b io) \<Rightarrow> 'b io" where
  "bind m f = (\<lambda>w. case m w of (Inl e, w') \<Rightarrow> (Inl e, w') | (Inr x, w') \<Rightarrow> f x w')"

definition seq :: "unit io \<Rightarrow> 'b io \<Rightarrow> 'b io" where
  "seq m k = bind m (\<lambda>_. k)"

definition lift :: "error + 'a \<Rightarrow> 'a io" where
  "lift r = (\<lambda>w. (r, w))"

definition print :: "string \<Rightarrow> unit io" where
  "print s = (\<lambda>w. (Inr (), w\<lparr>stdout := stdout w @ [s]\<rparr>))"

fun prints :: "string list \<Rightarrow> unit io" where
  "prints [] = return ()"
| "prints (s # ss) = seq (print s) (prints ss)"

definition write_file :: "string \<Rightarrow> string \<Rightarrow> unit io" where
  "write_file path text = (\<lambda>w. (Inr (), w\<lparr>files := (files w)(path \<mapsto> text)\<rparr>))"

definition read_csv :: "libs \<Rightarrow> string \<Rightarrow> (row list) io" where
  "read_csv lib path =
     (\<lambda>w. case files w path of
             None \<Rightarrow> (Inl FileNotFoundError, w)
           | Some content \<Rightarrow> (parse_csv lib content, w\<lparr>reads := reads w @ [path]\<rparr>))"

definition rule60 :: string where
  "rule60 = replicate 60 CHR ''=''"

definition banner :: "string \<Rightarrow> unit io" where
  "banner title = prints [newline @ rule60, title, rule60 @ newline]"

section \<open>Loader\<close>

definition filter_bytecode_map :: "(string \<times> int) list" where
  "filter_bytecode_map = [(''none'', 0), (''simple'', 7), (''medium'', 15), (''complex'', 30)]"

text \<open>\<^verbatim>\<open>Series.map(dict)\<close>: a label that is not a key, and a missing label, give NaN.\<close>

definition series_map :: "(string \<times> int) list \<Rightarrow> string option \<Rightarrow> int option" where
  "series_map d c = (case c of None \<Rightarrow> None | Some l \<Rightarrow> map_of d l)"

definition load_and_prepare_data :: "libs \<Rightarrow> string \<Rightarrow> (prow list) io" where
  "load_and_prepare_data lib csv_path =
     seq (banner ''Loading data...'')
     (bind (read_csv lib csv_path) (\<lambda>df0.
      seq (print (''Loaded '' @ show_nat (length df0) @ '' test cases''))
     (seq (print (newline @ ''Columns: '' @ str_columns lib df0))
     (let df = map (\<lambda>r. row.extend r
                 (prow.fields (series_map filter_bytecode_map (FilterComplexity r)))) df0
      in seq (print (newline @ ''Data preview:''))
        (seq (print (str_frame lib (take 5 df)))
        (return df))))))"

section \<open>pandas operations used by the script\<close>

fun somes :: "'a option list \<Rightarrow> 'a list" where
  "somes [] = []"
| "somes (None # xs) = somes xs"
| "somes (Some x # xs) = x # somes xs"

text \<open>The labels of a \<^verbatim>\<open>groupby\<close> and the levels of \<^verbatim>\<open>get_dummies\<close>: the distinct
  values present, sorted; missing values form no group.\<close>

definition group_keys :: "string option list \<Rightarrow> string list" where
  "group_keys ks = sort (remdups (somes ks))"

definition group_values :: "string \<Rightarrow> string option list \<Rightarrow> 'a list \<Rightarrow> 'a list" where
  "group_values k ks vs = map snd (filter (\<lambda>kv. fst kv = Some k) (zip ks vs))"

text \<open>\<^verbatim>\<open>df.groupby(key)[value].agg(names)\<close>: one row per label, one column per name.\<close>

definition groupby_agg :: "libs \<Rightarrow> string option list \<Rightarrow> float64 list \<Rightarrow> string list \<Rightarrow> table" where
  "groupby_agg lib ks vs names =
     (names, map (\<lambda>k. (k, map (\<lambda>n. agg_fn lib n (group_values k ks vs)) names)) (group_keys ks))"

text \<open>\<^verbatim>\<open>t.loc[r, c]\<close> raises KeyError when the label or the column is absent.\<close>

definition loc :: "table \<Rightarrow> string \<Rightarrow> string \<Rightarrow> error + float64" where
  "loc t r c =
     (case map_of (snd t) r of
        None \<Rightarrow> Inl (KeyError r)
      | Some cells \<Rightarrow>
          (case map_of (zip (fst t) cells) c of
             None \<Rightarrow> Inl (KeyError c)
           | Some v \<Rightarrow> Inr v))"

fun table_column :: "string \<Rightarrow> string list \<Rightarrow> (string \<times> float64 list) list
    \<Rightarrow> error + (string \<times> float64) list" where
  "table_column c names [] = (if c \<in> set names then Inr [] else Inl (KeyError c))"
| "table_column c names ((k, cells) # rest) =
     (case map_of (zip names cells) c of
        None \<Rightarrow> Inl (KeyError c)
      | Some v \<Rightarrow>
          (case table_column c names rest of
             Inl e \<Rightarrow> Inl e
           | Inr vs \<Rightarrow> Inr ((k, v) # vs)))"

text \<open>\<^verbatim>\<open>sort_values(..., ascending=False)\<close>: descending, NaN last. Rows with equal keys
  keep their order here.\<close>

fun before_desc :: "float64 \<Rightarrow> float64 \<Rightarrow> bool" where
  "before_desc a b = (if b = NaN then True else if a = NaN then False else float_ge a b)"

fun insert_desc :: "('a \<Rightarrow> float64) \<Rightarrow> 'a \<Rightarrow> 'a list \<Rightarrow> 'a list" where
  "insert_desc key x [] = [x]"
| "insert_desc key x (y # ys) =
     (if before_desc (key x) (key y) then x # y # ys else y # insert_desc key x ys)"

definition sort_values_desc :: "('a \<Rightarrow> float64) \<Rightarrow> 'a list \<Rightarrow> 'a list" where
  "sort_values_desc key xs = foldr (insert_desc key) xs []"

text \<open>\<^verbatim>\<open>pd.get_dummies(col, prefix=p)\<close>: one indicator column per level, named
  \<^verbatim>\<open>p_level\<close>; a row with a missing value has every indicator false.\<close>

definition get_dummies :: "string \<Rightarrow> string option list \<Rightarrow> frame" where
  "get_dummies pfx col =
     map (\<lambda>v. (pfx @ ''_'' @ v, map (\<lambda>c. BoolCell (c = Some v)) col)) (group_keys col)"

text \<open>\<^verbatim>\<open>frame.drop(name, axis=1)\<close> raises KeyError when no column has the name.\<close>

definition drop_column :: "string \<Rightarrow> frame \<Rightarrow> error + frame" where
  "drop_column name fr =
     (if name \<in> set (map fst fr) then Inr (filter (\<lambda>c. fst c \<noteq> name) fr)
      else Inl (KeyError (''['' @ [CHR 0x27] @ name @ [CHR 0x27] @ ''] not found in axis'')))"

text \<open>A column of optional integers is int64 when complete and float64, with NaN, when
  not.\<close>

definition opt_series :: "int option list \<Rightarrow> cell list" where
  "opt_series xs =
     (if None \<in> set xs
      then map (\<lambda>x. case x of None \<Rightarrow> FloatCell NaN | Some n \<Rightarrow> FloatCell (Finite (of_int n))) xs
      else map (\<lambda>x. case x of None \<Rightarrow> FloatCell NaN | Some n \<Rightarrow> IntCell n) xs)"

definition str_series :: "string option list \<Rightarrow> cell list" where
  "str_series xs = map (\<lambda>x. case x of None \<Rightarrow> FloatCell NaN | Some s \<Rightarrow> StrCell s) xs"

definition int64_series :: "64 word list \<Rightarrow> cell list" where
  "int64_series xs = map (\<lambda>x. IntCell (sint x)) xs"

text \<open>\<^verbatim>\<open>df[name]\<close>.\<close>

definition getitem :: "prow list \<Rightarrow> string \<Rightarrow> error + cell list" where
  "getitem df name =
     (if name = ''Operation'' then Inr (str_series (map Operation df))
      else if name = ''FilterComplexity'' then Inr (str_series (map FilterComplexity df))
      else if name = ''Rows'' then Inr (int64_series (map Rows df))
      else if name = ''Columns'' then Inr (int64_series (map Columns df))
      else if name = ''OpenJobGas'' then Inr (map (FloatCell \<circ> OpenJobGas) df)
      else if name = ''PushRowTotal'' then Inr (map (FloatCell \<circ> PushRowTotal) df)
      else if name = ''PushRowAvg'' then Inr (map (FloatCell \<circ> PushRowAvg) df)
      else if name = ''FinalizeGas'' then Inr (map (FloatCell \<circ> FinalizeGas) df)
      else if name = ''TotalGas'' then Inr (map (FloatCell \<circ> TotalGas) df)
      else if name = ''FilterBytes'' then Inr (opt_series (map FilterBytes df))
      else Inl (KeyError name))"

section \<open>Descriptive reporter\<close>

definition total_gas_by_operation :: "libs \<Rightarrow> prow list \<Rightarrow> table" where
  "total_gas_by_operation lib df =
     groupby_agg lib (map Operation df) (map TotalGas df) [''mean'', ''min'', ''max'', ''std'']"

definition total_gas_by_filter_complexity :: "libs \<Rightarrow> prow list \<Rightarrow> table" where
  "total_gas_by_filter_complexity lib df =
     groupby_agg lib (map FilterComplexity df) (map TotalGas df) [''mean'', ''min'', ''max'']"

definition phase_line :: "libs \<Rightarrow> string \<Rightarrow> float64 \<Rightarrow> float64 \<Rightarrow> string" where
  "phase_line lib label m t =
     label @ format_f 0 True m @ '' gas ('' @
     format_f 1 False (fmul lib (fdiv lib m t) (Finite 100)) @ ''%)''"

definition analyze_basic_statistics :: "libs \<Rightarrow> prow list \<Rightarrow> unit io" where
  "analyze_basic_statistics lib df =
     (let total = agg_fn lib ''mean'' (map TotalGas df)
      in seq (banner ''Basic Statistics'')
        (prints
          [''Total Gas by Operation:'',
           str_table lib (total_gas_by_operation lib df),
           newline @ newline @ ''Total Gas by Filter Complexity:'',
           str_table lib (total_gas_by_filter_complexity lib df),
           newline @ newline @ ''Gas Phase Breakdown (averages):'',
           phase_line lib ''  OpenJob:       '' (agg_fn lib ''mean'' (map OpenJobGas df)) total,
           phase_line lib ''  PushRow Total: '' (agg_fn lib ''mean'' (map PushRowTotal df)) total,
           phase_line lib ''  Finalize:      '' (agg_fn lib ''mean'' (map FinalizeGas df)) total,
           ''  Total:         '' @ format_f 0 True total @ '' gas'']))"

section \<open>Per-row costs\<close>

definition analyze_per_row_costs :: "libs \<Rightarrow> prow list \<Rightarrow> unit io" where
  "analyze_per_row_costs lib df =
     seq (banner ''Per-Row Cost Analysis'')
    (seq (print ''Average gas per row by operation:'')
    (let per_row = groupby_agg lib (map Operation df) (map PushRowAvg df) [''mean'', ''std'']
     in seq (print (str_table lib per_row))
       (bind (lift (loc per_row ''COUNT'' ''mean'')) (\<lambda>baseline.
        bind (lift (table_column ''mean'' (fst per_row) (snd per_row))) (\<lambda>means.
        let relative = map (\<lambda>kv. (fst kv, fdiv lib (snd kv) baseline)) means
        in seq (print (newline @ ''Relative to COUNT (1.0x):''))
               (print (str_table lib
                  ([''Relative''],
                   map (\<lambda>kv. (fst kv, [snd kv])) (sort_values_desc snd relative)))))))))"

section \<open>Regression fitter\<close>

definition times_sign :: string where
  "times_sign = [CHR 0xC3, CHR 0x97]"

definition superscript_two :: string where
  "superscript_two = [CHR 0xC2, CHR 0xB2]"

definition ge_sign :: string where
  "ge_sign = [CHR 0xE2, CHR 0x89, CHR 0xA5]"

definition le_sign :: string where
  "le_sign = [CHR 0xE2, CHR 0x89, CHR 0xA4]"

definition check_mark :: string where
  "check_mark = [CHR 0xE2, CHR 0x9C, CHR 0x93]"

definition ballot_x :: string where
  "ballot_x = [CHR 0xE2, CHR 0x9C, CHR 0x97]"

text \<open>The literal \<^verbatim>\<open>0.60\<close> is the binary64 value nearest to 3/5.\<close>

definition threshold_r2 :: float64 where
  "threshold_r2 = Finite (5404319552844595 / 9007199254740992)"

definition threshold_mape :: float64 where
  "threshold_mape = Finite 40"

text \<open>\<^verbatim>\<open>pd.DataFrame({'Feature': ..., 'Coefficient': ..., 'Impact': ...})\<close> raises
  ValueError when the columns differ in length.\<close>

definition coef_table :: "string list \<Rightarrow> float64 list \<Rightarrow> error + coef_row list" where
  "coef_table names coefs =
     (if length names = length coefs
      then Inr (map (\<lambda>nc. \<lparr>Feature = fst nc, Coefficient = snd nc, Impact = snd nc\<rparr>) (zip names coefs))
      else Inl ValueError)"

definition build_regression_model ::
    "libs \<Rightarrow> prow list \<Rightarrow> string \<Rightarrow> bool
      \<Rightarrow> (model \<times> frame \<times> cell list \<times> float64 list \<times> coef_row list) io" where
  "build_regression_model lib df target include_interaction =
     seq (prints
       ([newline @ rule60, ''Building Regression Model for '' @ target] @
        (if include_interaction
         then [''(with Rows '' @ times_sign @ '' Columns interaction)''] else []) @
        [rule60 @ newline]))
     (let X0 = [(''Rows'', int64_series (map Rows df)),
                (''Columns'', int64_series (map Columns df)),
                (''FilterBytes'', opt_series (map FilterBytes df))];
          X1 = (if include_interaction
                then X0 @ [(''Rows_x_Columns'', int64_series (map (\<lambda>r. Rows r * Columns r) df))]
                else X0);
          operation_dummies = get_dummies ''Op'' (map Operation df)
      in bind (lift (drop_column ''Op_COUNT'' operation_dummies)) (\<lambda>operation_dummies.
         let X = X1 @ operation_dummies
         in bind (lift (getitem df target)) (\<lambda>y.
            bind (lift (lr_fit lib X y)) (\<lambda>model.
            let y_pred = lr_predict lib model X
            in bind (lift (r2_score lib y y_pred)) (\<lambda>r2.
               bind (lift (mean_absolute_percentage_error lib y y_pred)) (\<lambda>m.
               let mape = fmul lib m (Finite 100)
               in seq (prints
                    [''Model Performance:'',
                     ''  R'' @ superscript_two @ '' Score:  '' @ format_f 4 False r2 @ '' ('' @
                       format_f 1 False (fmul lib r2 (Finite 100)) @ ''% variance explained)'',
                     ''  MAPE:      '' @ format_f 2 False mape @ ''%'',
                     ''  Target:    R'' @ superscript_two @ '' '' @ ge_sign @ '' 0.60, MAPE '' @
                       le_sign @ '' 40%''])
                 (seq (print
                    (if float_ge r2 threshold_r2
                     then ''  '' @ check_mark @ '' Model meets R'' @ superscript_two @ '' target!''
                     else ''  '' @ ballot_x @ '' Model below R'' @ superscript_two @ '' target''))
                 (seq (print
                    (if float_le mape threshold_mape
                     then ''  '' @ check_mark @ '' Model meets MAPE target!''
                     else ''  '' @ ballot_x @ '' Model above MAPE target - consider more terms''))
                 (seq (prints
                    [newline @ ''Model Coefficients:'',
                     ''  Intercept: '' @ format_f 0 True (model_intercept model) @ '' gas''])
                 (bind (lift (coef_table (map fst X) (model_coef model))) (\<lambda>unsorted.
                  let coef_df = sort_values_desc Coefficient unsorted
                  in seq (print (newline @ to_string lib coef_df))
                         (return (model, X, y, y_pred, coef_df)))))))))))))"

section \<open>Visualizer\<close>

text \<open>\<^verbatim>\<open>Series.unique()\<close>: the values in order of first appearance, missing included.\<close>

definition unique :: "'a list \<Rightarrow> 'a list" where
  "unique xs = rev (remdups (rev xs))"

text \<open>The data of the four panels. The comparison \<^verbatim>\<open>df['Operation'] == op\<close> is false
  on every row when \<open>op\<close> is missing. The first scatter raises ValueError when the
  predictions and the table differ in length.\<close>

definition panels :: "libs \<Rightarrow> prow list \<Rightarrow> float64 list \<Rightarrow> coef_row list \<Rightarrow> figure" where
  "panels lib df y_pred coef_df =
     Figure
       (map TotalGas df, y_pred,
        agg_fn lib ''min'' (map TotalGas df), agg_fn lib ''max'' (map TotalGas df))
       (map (\<lambda>k. (k, group_values k (map Operation df) (map TotalGas df)))
          (group_keys (map Operation df)))
       (map (\<lambda>c. (Feature c, Coefficient c)) (take 10 coef_df))
       (map (\<lambda>op. (op,
            map (\<lambda>r. sint (Rows r)) (filter (\<lambda>r. op \<noteq> None \<and> Operation r = op) df),
            map TotalGas (filter (\<lambda>r. op \<noteq> None \<and> Operation r = op) df)))
          (unique (map Operation df)))"

definition visualize_results :: "libs \<Rightarrow> prow list \<Rightarrow> float64 list \<Rightarrow> coef_row list \<Rightarrow> unit io" where
  "visualize_results lib df y_pred coef_df =
     seq (banner ''Generating Visualizations'')
     (if length y_pred \<noteq> length df then raise ValueError
      else
        seq (write_file ''gas_analysis.png'' (savefig lib (panels lib df y_pred coef_df)))
            (print ''Saved visualization to: gas_analysis.png''))"

section \<open>Code generator\<close>

text \<open>\<^verbatim>\<open>coef_df[coef_df['Feature'] == name]['Coefficient'].values[0]\<close> when the name is
  among the features, and 0 otherwise.\<close>

definition coefficient_of :: "string \<Rightarrow> coef_row list \<Rightarrow> float64" where
  "coefficient_of name coef_df =
     (case find (\<lambda>c. Feature c = name) coef_df of
        Some c \<Rightarrow> Coefficient c
      | None \<Rightarrow> Finite 0)"

text \<open>\<^verbatim>\<open>s.replace('Op_', '')\<close>: every occurrence is removed, scanning from the left.\<close>

fun replace_Op :: "string \<Rightarrow> string" where
  "replace_Op (a # b # c # rest) =
     (if [a, b, c] = ''Op_'' then replace_Op rest else a # replace_Op (b # c # rest))"
| "replace_Op s = s"

text \<open>The dictionary \<^verbatim>\<open>op_coefs\<close>: a later row replaces an earlier one of the same name.\<close>

definition op_coefs :: "coef_row list \<Rightarrow> string \<Rightarrow> float64 option" where
  "op_coefs coef_df =
     foldl (\<lambda>m c. if prefix ''Op_'' (Feature c)
                   then m(replace_Op (Feature c) \<mapsto> Coefficient c) else m)
       Map.empty coef_df"

definition get_or_zero :: "(string \<Rightarrow> float64 option) \<Rightarrow> string \<Rightarrow> float64" where
  "get_or_zero m k = (case m k of None \<Rightarrow> Finite 0 | Some v \<Rightarrow> v)"

definition fmt0 :: "float64 \<Rightarrow> string" where
  "fmt0 x = format_f 0 False x"

definition template_with :: "float64 \<Rightarrow> float64 \<Rightarrow> float64 \<Rightarrow> float64 \<Rightarrow> float64
    \<Rightarrow> (string \<Rightarrow> float64 option) \<Rightarrow> string list" where
  "template_with intercept row_coef col_coef interaction_coef filter_coef ops =
    [''/**'',
     '' * Estimates gas cost for a JobManager job based on parameters'',
     '' * '',
     '' * Model Accuracy: See analysis output for R'' @ superscript_two @ '' and MAPE'',
     '' * Model includes Rows '' @ times_sign @ '' Columns interaction term for better accuracy'',
     '' * '',
     '' * @param rows Number of rows in dataset'',
     '' * @param columns Number of columns in dataset'',
     '' * @param operation Operation type'',
     '' * @param filterBytes Approximate filter bytecode length'',
     '' * @returns Estimated total gas cost'',
     '' */'',
     ''function estimateJobGas('',
     ''  rows: number,'',
     ''  columns: number,'',
     ''  operation: 'COUNT' | 'SUM' | 'AVG_P' | 'WEIGHTED_SUM' | 'MIN' | 'MAX','',
     ''  filterBytes: number'',
     ''): number {'',
     ''  // Base cost (intercept)'',
     ''  let gas = '' @ fmt0 intercept @ '';'',
     ''  '',
     ''  // Add per-row cost'',
     ''  gas += rows * '' @ fmt0 row_coef @ '';'',
     ''  '',
     ''  // Add per-column cost'',
     ''  gas += columns * '' @ fmt0 col_coef @ '';'',
     ''  '',
     ''  // Add row '' @ times_sign @ '' column interaction (decoding cost scales with both)'',
     ''  gas += (rows * columns) * '' @ fmt0 interaction_coef @ '';'',
     ''  '',
     ''  // Add filter complexity cost'',
     ''  gas += filterBytes * '' @ fmt0 filter_coef @ '';'',
     ''  '',
     ''  // Add operation-specific costs (relative to COUNT baseline)'',
     ''  const operationCosts = {'',
     ''    'COUNT': 0,  // baseline'',
     ''    'SUM': '' @ fmt0 (get_or_zero ops ''SUM'') @ '','',
     ''    'AVG_P': '' @ fmt0 (get_or_zero ops ''AVG_P'') @ '','',
     ''    'WEIGHTED_SUM': '' @ fmt0 (get_or_zero ops ''WEIGHTED_SUM'') @ '','',
     ''    'MIN': '' @ fmt0 (get_or_zero ops ''MIN'') @ '','',
     ''    'MAX': '' @ fmt0 (get_or_zero ops ''MAX'') @ '','',
     ''  };'',
     ''  '',
     ''  gas += operationCosts[operation];'',
     ''  '',
     ''  return Math.round(gas);'',
     ''}'',
     [],
     ''// Example usage:'',
     ''const estimatedGas = estimateJobGas(50, 15, 'SUM', 7);'',
     ''console.log(`Estimated gas: ${estimatedGas.toLocaleString()}`);'']"

definition template_without :: "float64 \<Rightarrow> float64 \<Rightarrow> float64 \<Rightarrow> float64
    \<Rightarrow> (string \<Rightarrow> float64 option) \<Rightarrow> string list" where
  "template_without intercept row_coef col_coef filter_coef ops =
    [''/**'',
     '' * Estimates gas cost for a JobManager job based on parameters'',
     '' * '',
     '' * Model Accuracy: See analysis output for R'' @ superscript_two @ '' and MAPE'',
     '' * '',
     '' * @param rows Number of rows in dataset'',
     '' * @param columns Number of columns in dataset'',
     '' * @param operation Operation type'',
     '' * @param filterBytes Approximate filter bytecode length'',
     '' * @returns Estimated total gas cost'',
     '' */'',
     ''function estimateJobGas('',
     ''  rows: number,'',
     ''  columns: number,'',
     ''  operation: 'COUNT' | 'SUM' | 'AVG_P' | 'WEIGHTED_SUM' | 'MIN' | 'MAX','',
     ''  filterBytes: number'',
     ''): number {'',
     ''  // Base cost (intercept)'',
     ''  let gas = '' @ fmt0 intercept @ '';'',
     ''  '',
     ''  // Add per-row cost'',
     ''  gas += rows * '' @ fmt0 row_coef @ '';'',
     ''  '',
     ''  // Add per-column cost (decoding)'',
     ''  gas += columns * '' @ fmt0 col_coef @ '';'',
     ''  '',
     ''  // Add filter complexity cost'',
     ''  gas += filterBytes * '' @ fmt0 filter_coef @ '';'',
     ''  '',
     ''  // Add operation-specific costs (relative to COUNT baseline)'',
     ''  const operationCosts = {'',
     ''    'COUNT': 0,  // baseline'',
     ''    'SUM': '' @ fmt0 (get_or_zero ops ''SUM'') @ '','',
     ''    'AVG_P': '' @ fmt0 (get_or_zero ops ''AVG_P'') @ '','',
     ''    'WEIGHTED_SUM': '' @ fmt0 (get_or_zero ops ''WEIGHTED_SUM'') @ '','',
     ''    'MIN': '' @ fmt0 (get_or_zero ops ''MIN'') @ '','',
     ''    'MAX': '' @ fmt0 (get_or_zero ops ''MAX'') @ '','',
     ''  };'',
     ''  '',
     ''  gas += operationCosts[operation];'',
     ''  '',
     ''  return Math.round(gas);'',
     ''}'',
     [],
     ''// Example usage:'',
     ''const estimatedGas = estimateJobGas(50, 15, 'SUM', 7);'',
     ''console.log(`Estimated gas: ${estimatedGas.toLocaleString()}`);'']"

text \<open>The triple-quoted literal opens with a line break and every line ends with one.\<close>

definition unlines :: "string list \<Rightarrow> string" where
  "unlines ls = concat (map (\<lambda>l. l @ newline) ls)"

definition estimator_code :: "model \<Rightarrow> coef_row list \<Rightarrow> string" where
  "estimator_code model coef_df =
     (let intercept = model_intercept model;
          row_coef = coefficient_of ''Rows'' coef_df;
          col_coef = coefficient_of ''Columns'' coef_df;
          filter_coef = coefficient_of ''FilterBytes'' coef_df;
          has_interaction = (''Rows_x_Columns'' \<in> set (map Feature coef_df));
          interaction_coef =
            (if has_interaction then coefficient_of ''Rows_x_Columns'' coef_df else Finite 0);
          ops = op_coefs coef_df
      in if has_interaction
         then newline @ unlines
                (template_with intercept row_coef col_coef interaction_coef filter_coef ops)
         else newline @ unlines (template_without intercept row_coef col_coef filter_coef ops))"

definition generate_estimator_code :: "model \<Rightarrow> coef_row list \<Rightarrow> unit io" where
  "generate_estimator_code model coef_df =
     seq (banner ''Gas Estimator Function (TypeScript)'')
    (let code = estimator_code model coef_df
     in seq (print code)
       (seq (write_file ''estimateJobGas.ts'' code)
            (print (newline @ ''Saved estimator function to: estimateJobGas.ts''))))"

section \<open>Entry point\<close>

text \<open>The body of the \<^verbatim>\<open>try\<close> statement of \<^verbatim>\<open>main\<close>.\<close>

definition pipeline :: "libs \<Rightarrow> string \<Rightarrow> unit io" where
  "pipeline lib csv_path =
     bind (load_and_prepare_data lib csv_path) (\<lambda>df.
     seq (analyze_basic_statistics lib df)
    (seq (analyze_per_row_costs lib df)
    (bind (build_regression_model lib df ''TotalGas'' True) (\<lambda>(model, X, y, y_pred, coef_df).
     seq (print (newline @ newline @ ''--- Analyzing PushRow Costs ---''))
    (bind (build_regression_model lib df ''PushRowTotal'' True) (\<lambda>_.
     seq (visualize_results lib df y_pred coef_df)
    (seq (generate_estimator_code model coef_df)
    (seq (banner ''Analysis Complete!'')
         (prints
           [''Generated files:'',
            ''  - gas_analysis.png (visualizations)'',
            ''  - estimateJobGas.ts (estimator function)'',
            newline @ ''Next steps:'',
            ''  1. Review R'' @ superscript_two @ '' score (target: '' @ ge_sign @ ''0.60)'',
            ''  2. Check MAPE (target: '' @ le_sign @ ''40%)'',
            ''  3. Use estimateJobGas.ts in your application'',
            ''  4. Validate with holdout test cases''])))))))))"

definition usage :: "string list" where
  "usage =
     [''Usage: python analyze_gas_results.py <csv_file>'',
      newline @ ''Example: python analyze_gas_results.py gas_benchmark_results.csv'']"

text \<open>The exit status and the world the process leaves. \<open>argv\<close> holds the script name
  first, as \<^verbatim>\<open>sys.argv\<close> does.\<close>

definition main :: "libs \<Rightarrow> string list \<Rightarrow> world \<Rightarrow> int \<times> world" where
  "main lib argv w =
     (if length argv < 2 then (1, snd (prints usage w))
      else
        let csv_path = argv ! 1
        in case pipeline lib csv_path w of
             (Inr _, w') \<Rightarrow> (0, w')
           | (Inl FileNotFoundError, w') \<Rightarrow>
               (1, snd (print (''Error: File '' @ [CHR 0x27] @ csv_path @ [CHR 0x27] @
                               '' not found'') w'))
           | (Inl e, w') \<Rightarrow>
               (1, snd (print (''Error: '' @ str_error lib e) w')
                     \<lparr>stderr := stderr w' @ [format_exc lib e]\<rparr>))"

section \<open>Notions used in the proofs\<close>

text \<open>A stage that only prints: its result does not depend on the world, and it leaves
  the world as it was, with its output appended.\<close>

definition world0 :: world where
  "world0 = \<lparr>files = Map.empty, stdout = [], stderr = [], reads = []\<rparr>"

definition result_of :: "'a io \<Rightarrow> error + 'a" where
  "result_of m = fst (m world0)"

definition output_of :: "'a io \<Rightarrow> string list" where
  "output_of m = stdout (snd (m world0))"

definition printer :: "'a io \<Rightarrow> bool" where
  "printer m \<longleftrightarrow> (\<exists>r out. \<forall>w. m w = (r, w\<lparr>stdout := stdout w @ out\<rparr>))"

text \<open>The table the loader returns for the rows the parser delivers.\<close>

definition prepare :: "row list \<Rightarrow> prow list" where
  "prepare df0 =
     map (\<lambda>r. row.extend r (prow.fields (series_map filter_bytecode_map (FilterComplexity r)))) df0"

text \<open>The libraries with the two metrics replaced by given values.\<close>

definition with_metrics :: "libs \<Rightarrow> float64 \<Rightarrow> float64 \<Rightarrow> libs" where
  "with_metrics lib a b =
     lib\<lparr>r2_score := (\<lambda>y p. Inr a), mean_absolute_percentage_error := (\<lambda>y p. Inr b)\<rparr>"

text \<open>The characters a float formatted with \<^verbatim>\<open>.0f\<close> can contain.\<close>

definition number_chars :: "char set" where
  "number_chars = set ''0123456789-infa''"

section \<open>A small instance\<close>

text \<open>
  Concrete inputs on which the definitions are evaluated. The stand-in for the libraries
  reads the file content \<^verbatim>\<open>A\<close> as a table of three complete rows, \<^verbatim>\<open>B\<close> as the same
  table with the PushRowTotal of one row missing, \<^verbatim>\<open>C\<close> as a table without COUNT and
  \<^verbatim>\<open>D\<close> as a table with an unknown complexity label; its fit refuses a missing value
  in the features or in the target, as the input validation of scikit-learn does, and
  returns zero coefficients otherwise.
\<close>

definition obs :: "string \<Rightarrow> string \<Rightarrow> int \<Rightarrow> int \<Rightarrow> float64 \<Rightarrow> row" where
  "obs op fc r c push =
     \<lparr>Operation = Some op, FilterComplexity = Some fc, Rows = word_of_int r,
      Columns = word_of_int c, OpenJobGas = Finite 100, PushRowTotal = push,
      PushRowAvg = Finite 20, FinalizeGas = Finite 50, TotalGas = Finite 350\<rparr>"

definition table_A :: "row list" where
  "table_A =
     [obs ''COUNT'' ''none'' 10 3 (Finite 200),
      obs ''SUM'' ''simple'' 20 5 (Finite 200),
      obs ''COUNT'' ''complex'' 10 5 (Finite 200)]"

definition table_B :: "row list" where
  "table_B =
     [obs ''COUNT'' ''none'' 10 3 (Finite 200),
      obs ''SUM'' ''simple'' 20 5 NaN,
      obs ''COUNT'' ''complex'' 10 5 (Finite 200)]"

definition table_C :: "row list" where
  "table_C = [obs ''SUM'' ''simple'' 20 5 (Finite 200)]"

definition table_D :: "row list" where
  "table_D =
     [obs ''COUNT'' ''medium'' 10 3 (Finite 200),
      obs ''MAX'' ''huge'' 20 5 (Finite 200)]"

definition has_nan :: "cell list \<Rightarrow> bool" where
  "has_nan cs = (FloatCell NaN \<in> set cs)"

definition sample_libs :: libs where
  "sample_libs =
     \<lparr>parse_csv = (\<lambda>s. if s = ''A'' then Inr table_A
                         else if s = ''B'' then Inr table_B
                         else if s = ''C'' then Inr table_C
                         else if s = ''D'' then Inr table_D
                         else Inl ParserError),
      agg_fn = (\<lambda>n xs. Finite (of_nat (length xs))),
      fmul = (\<lambda>a b. a),
      fdiv = (\<lambda>a b. a),
      lr_fit = (\<lambda>X y. if has_nan y \<or> list_ex (\<lambda>c. has_nan (snd c)) X then Inl ValueError
                        else Inr \<lparr>model_intercept = Finite 0,
                                  model_coef = map (\<lambda>c. Finite 0) X\<rparr>),
      lr_predict = (\<lambda>m X. case X of [] \<Rightarrow> [] | c # cs \<Rightarrow> map (\<lambda>v. Finite 0) (snd c)),
      r2_score = (\<lambda>y p. Inr (Finite 1)),
      mean_absolute_percentage_error = (\<lambda>y p. Inr (Finite 0)),
      str_columns = (\<lambda>t. []),
      str_frame = (\<lambda>t. []),
      str_table = (\<lambda>t. []),
      to_string = (\<lambda>t. []),
      str_error = (\<lambda>e. []),
      format_exc = (\<lambda>e. []),
      savefig = (\<lambda>f. ''png'')\<rparr>"

definition sample_argv :: "string list" where
  "sample_argv = [''analyze_gas_results.py'', ''in.csv'']"

definition sample_world :: "string \<Rightarrow> world" where
  "sample_world content =
     \<lparr>files = [''in.csv'' \<mapsto> content], stdout = [], stderr = [], reads = []\<rparr>"

section \<open>Printing stages\<close>

lemma bind_apply: "bind m f w = (case m w of (Inl e, w') \<Rightarrow> (Inl e, w') | (Inr x, w') \<Rightarrow> f x w')"
  by (simp add: bind_def)

lemma printer_return: "printer (return x)"
  unfolding printer_def return_def by (intro exI[of _ "Inr x"] exI[of _ "[]"]) simp

lemma printer_raise: "printer (raise e)"
  unfolding printer_def raise_def by (intro exI[of _ "Inl e"] exI[of _ "[]"]) simp

lemma printer_lift: "printer (lift r)"
  unfolding printer_def lift_def by (intro exI[of _ r] exI[of _ "[]"]) simp

lemma printer_print: "printer (print s)"
  unfolding printer_def print_def by (intro exI[of _ "Inr ()"] exI[of _ "[s]"]) simp

lemma printer_bind:
  assumes "printer m" and "\<And>x. printer (f x)"
  shows "printer (bind m f)"
proof -
  from assms(1) obtain r out where m: "\<And>w. m w = (r, w\<lparr>stdout := stdout w @ out\<rparr>)"
    unfolding printer_def by blast
  show ?thesis
  proof (cases r)
    case (Inl e)
    have "\<forall>w. bind m f w = (Inl e, w\<lparr>stdout := stdout w @ out\<rparr>)"
      by (simp add: bind_def m Inl)
    then show ?thesis unfolding printer_def by blast
  next
    case (Inr x)
    from assms(2)[of x] obtain r' out' where
      f: "\<And>w. f x w = (r', w\<lparr>stdout := stdout w @ out'\<rparr>)"
      unfolding printer_def by blast
    have "\<forall>w. bind m f w = (r', w\<lparr>stdout := stdout w @ (out @ out')\<rparr>)"
      by (simp add: bind_def m Inr f)
    then show ?thesis unfolding printer_def by blast
  qed
qed

lemma printer_seq: "printer m \<Longrightarrow> printer k \<Longrightarrow> printer (seq m k)"
  unfolding seq_def by (rule printer_bind)

lemma printer_prints: "printer (prints ss)"
  by (induction ss) (simp_all add: printer_return printer_seq printer_print)

lemma printer_banner: "printer (banner t)"
  unfolding banner_def by (rule printer_prints)

lemma printer_if: "(c \<Longrightarrow> printer a) \<Longrightarrow> (\<not> c \<Longrightarrow> printer b) \<Longrightarrow> printer (if c then a else b)"
  by simp

lemmas printer_intros = printer_return printer_raise printer_lift printer_print printer_bind
  printer_seq printer_prints printer_banner printer_if

lemma printer_eq:
  assumes "printer m"
  shows "m w = (result_of m, w\<lparr>stdout := stdout w @ output_of m\<rparr>)"
proof -
  from assms obtain r out where m: "\<And>w. m w = (r, w\<lparr>stdout := stdout w @ out\<rparr>)"
    unfolding printer_def by blast
  show ?thesis by (simp add: m result_of_def output_of_def world0_def)
qed

lemma printer_stats: "printer (analyze_basic_statistics lib df)"
  unfolding analyze_basic_statistics_def Let_def by (intro printer_intros)

lemma printer_per_row: "printer (analyze_per_row_costs lib df)"
  unfolding analyze_per_row_costs_def Let_def by (intro printer_intros)

lemma printer_build: "printer (build_regression_model lib df target ii)"
  unfolding build_regression_model_def Let_def by (intro printer_intros)

section \<open>Outcome of the pipeline\<close>

lemmas stats_eq = printer_eq[OF printer_stats]
lemmas per_row_eq = printer_eq[OF printer_per_row]
lemmas build_eq = printer_eq[OF printer_build]
lemmas banner_eq = printer_eq[OF printer_banner]
lemmas prints_eq = printer_eq[OF printer_prints]

lemma result_of_stats: "result_of (analyze_basic_statistics lib df) = Inr ()"
  by (simp add: result_of_def analyze_basic_statistics_def Let_def seq_def bind_def banner_def
      print_def return_def)

lemma result_of_banner: "result_of (banner t) = Inr ()"
  by (simp add: result_of_def seq_def bind_def banner_def print_def return_def)

lemma prints_fst: "fst (prints ss w) = Inr ()"
  by (induction ss arbitrary: w) (simp_all add: seq_def bind_def print_def return_def)

lemma result_of_prints: "result_of (prints ss) = Inr ()"
  by (simp add: result_of_def prints_fst)

lemma visualize_eq:
  "visualize_results lib df y_pred coef_df w =
     (if length y_pred \<noteq> length df
      then (Inl ValueError, w\<lparr>stdout := stdout w @ output_of (banner ''Generating Visualizations'')\<rparr>)
      else (Inr (), w\<lparr>stdout := stdout w @ output_of (banner ''Generating Visualizations'')
                           @ [''Saved visualization to: gas_analysis.png''],
                        files := (files w)(''gas_analysis.png'' \<mapsto>
                                   savefig lib (panels lib df y_pred coef_df))\<rparr>))"
  by (simp add: visualize_results_def seq_def bind_def banner_eq result_of_banner raise_def
      write_file_def print_def)

lemma generate_eq:
  "generate_estimator_code model coef_df w =
     (Inr (), w\<lparr>stdout := stdout w @ output_of (banner ''Gas Estimator Function (TypeScript)'')
                     @ [estimator_code model coef_df,
                        newline @ ''Saved estimator function to: estimateJobGas.ts''],
                  files := (files w)(''estimateJobGas.ts'' \<mapsto> estimator_code model coef_df)\<rparr>)"
  by (simp add: generate_estimator_code_def Let_def seq_def bind_def banner_eq result_of_banner
      write_file_def print_def)

lemma pipeline_outcome:
  assumes "load_and_prepare_data lib p w = (Inr df, w1)"
  shows "(fst (pipeline lib p w), files (snd (pipeline lib p w))) =
    (case result_of (analyze_per_row_costs lib df) of
       Inl e \<Rightarrow> (Inl e, files w1)
     | Inr u \<Rightarrow>
        (case result_of (build_regression_model lib df ''TotalGas'' True) of
           Inl e \<Rightarrow> (Inl e, files w1)
         | Inr (m, X, y, yp, cd) \<Rightarrow>
            (case result_of (build_regression_model lib df ''PushRowTotal'' True) of
               Inl e \<Rightarrow> (Inl e, files w1)
             | Inr v \<Rightarrow>
                if length yp \<noteq> length df then (Inl ValueError, files w1)
                else (Inr (), (files w1)(''gas_analysis.png'' \<mapsto> savefig lib (panels lib df yp cd),
                                        ''estimateJobGas.ts'' \<mapsto> estimator_code m cd)))))"
  by (simp add: pipeline_def bind_apply seq_def assms stats_eq result_of_stats per_row_eq build_eq
      visualize_eq generate_eq banner_eq result_of_banner prints_eq result_of_prints print_def return_def
      split: sum.splits prod.splits)

section \<open>Invocation and input errors\<close>

lemma prepare_eq:
  "map (\<lambda>r. row.extend r (prow.fields (series_map filter_bytecode_map (FilterComplexity r)))) df0
     = prepare df0"
  by (simp add: prepare_def)

lemma load_missing:
  assumes "files w p = None"
  shows "load_and_prepare_data lib p w =
           (Inl FileNotFoundError, w\<lparr>stdout := stdout w @ output_of (banner ''Loading data...'')\<rparr>)"
  using assms
  by (simp add: load_and_prepare_data_def seq_def bind_apply banner_eq result_of_banner read_csv_def)

lemma load_parse_error:
  assumes "files w p = Some c" and "parse_csv lib c = Inl e"
  shows "fst (load_and_prepare_data lib p w) = Inl e"
    and "files (snd (load_and_prepare_data lib p w)) = files w"
  using assms
  by (simp_all add: load_and_prepare_data_def seq_def bind_apply banner_eq result_of_banner
      read_csv_def)

lemma load_ok:
  assumes "files w p = Some c" and "parse_csv lib c = Inr t"
  shows "fst (load_and_prepare_data lib p w) = Inr (prepare t)"
    and "files (snd (load_and_prepare_data lib p w)) = files w"
  using assms
  by (simp_all add: load_and_prepare_data_def seq_def bind_apply banner_eq result_of_banner
      read_csv_def print_def return_def Let_def prepare_eq)

lemma load_files: "files (snd (load_and_prepare_data lib p w)) = files w"
proof (cases "files w p")
  case None
  then show ?thesis by (simp add: load_missing)
next
  case (Some c)
  then show ?thesis
    by (cases "parse_csv lib c") (simp_all add: load_parse_error load_ok)
qed

lemma load_result:
  "fst (load_and_prepare_data lib p w) =
     (case files w p of
        None \<Rightarrow> Inl FileNotFoundError
      | Some c \<Rightarrow> (case parse_csv lib c of Inl e \<Rightarrow> Inl e | Inr t \<Rightarrow> Inr (prepare t)))"
  by (auto simp: load_missing load_parse_error load_ok split: option.splits sum.splits)

lemma pipeline_load_error:
  assumes "fst (load_and_prepare_data lib p w) = Inl e"
  shows "fst (pipeline lib p w) = Inl e"
    and "files (snd (pipeline lib p w)) = files w"
proof -
  obtain w1 where l: "load_and_prepare_data lib p w = (Inl e, w1)"
    using assms by (cases "load_and_prepare_data lib p w") auto
  have "files w1 = files w" using load_files[of lib p w] l by simp
  then show "fst (pipeline lib p w) = Inl e" and "files (snd (pipeline lib p w)) = files w"
    by (simp_all add: pipeline_def bind_apply l)
qed

lemma main_exit:
  "fst (main lib argv w) =
     (if length argv < 2 then 1
      else case fst (pipeline lib (argv ! 1) w) of Inr u \<Rightarrow> 0 | Inl e \<Rightarrow> 1)"
  by (auto simp: main_def Let_def split: prod.splits sum.splits error.splits)

lemma prints_files: "files (snd (prints ss w)) = files w"
  by (simp add: prints_eq)

lemma main_files:
  "files (snd (main lib argv w)) =
     (if length argv < 2 then files w else files (snd (pipeline lib (argv ! 1) w)))"
  by (auto simp: main_def Let_def print_def prints_files split: prod.splits sum.splits error.splits)

text \<open>
  Claim C8. Invoked without a positional argument, the program prints the two lines of the
  usage message and exits with status 1. Nothing else of the world changes: no file is read
  and none is written.
\<close>

theorem missing_argument:
  assumes "length argv < 2"
  shows "main lib argv w =
           (1, w\<lparr>stdout := stdout w @
                  [''Usage: python analyze_gas_results.py <csv_file>'',
                   [CHR 0x0A] @
                   ''Example: python analyze_gas_results.py gas_benchmark_results.csv'']\<rparr>)"
  using assms
  by (simp add: main_def usage_def newline_def seq_def bind_def print_def return_def)

text \<open>
  Claim C5. When the path given on the command line names no file, the program exits with
  status 1 and the files are what they were: neither output file is created or modified.
\<close>

theorem nonexistent_input:
  assumes "2 \<le> length argv" and "files w (argv ! 1) = None"
  shows "fst (main lib argv w) = 1 \<and> files (snd (main lib argv w)) = files w"
proof -
  have "fst (load_and_prepare_data lib (argv ! 1) w) = Inl FileNotFoundError"
    using assms(2) by (simp add: load_missing)
  from pipeline_load_error[OF this] assms(1) show ?thesis
    by (simp add: main_exit main_files)
qed

section \<open>Result of the fitter\<close>

lemma fst_seq_prints: "fst (seq (prints ss) k w) = fst (k (snd (prints ss w)))"
  using prints_fst[of ss w] by (cases "prints ss w") (simp add: seq_def bind_def)

lemma fst_seq_print: "fst (seq (print s) k w) = fst (k (snd (print s w)))"
  by (simp add: seq_def bind_def print_def)

lemma fst_bind_lift:
  "fst (bind (lift r) f w) = (case r of Inl e \<Rightarrow> Inl e | Inr x \<Rightarrow> fst (f x w))"
  by (cases r) (simp_all add: bind_def lift_def)

lemma fst_return: "fst (return x w) = Inr x"
  by (simp add: return_def)

lemma build_fst: "fst (build_regression_model lib df target ii w)
    = result_of (build_regression_model lib df target ii)"
  by (simp add: build_eq)

lemma build_result:
  "result_of (build_regression_model lib df target ii) =
     (case drop_column ''Op_COUNT'' (get_dummies ''Op'' (map Operation df)) of
        Inl e \<Rightarrow> Inl e
      | Inr d \<Rightarrow>
         (let X = [(''Rows'', int64_series (map Rows df)),
                   (''Columns'', int64_series (map Columns df)),
                   (''FilterBytes'', opt_series (map FilterBytes df))] @
                  (if ii then [(''Rows_x_Columns'',
                                int64_series (map (\<lambda>r. Rows r * Columns r) df))] else []) @ d
          in case getitem df target of
               Inl e \<Rightarrow> Inl e
             | Inr y \<Rightarrow>
                (case lr_fit lib X y of
                   Inl e \<Rightarrow> Inl e
                 | Inr m \<Rightarrow>
                    (case r2_score lib y (lr_predict lib m X) of
                       Inl e \<Rightarrow> Inl e
                     | Inr r2 \<Rightarrow>
                        (case mean_absolute_percentage_error lib y (lr_predict lib m X) of
                           Inl e \<Rightarrow> Inl e
                         | Inr mp \<Rightarrow>
                            (case coef_table (map fst X) (model_coef m) of
                               Inl e \<Rightarrow> Inl e
                             | Inr u \<Rightarrow> Inr (m, X, y, lr_predict lib m X,
                                              sort_values_desc Coefficient u)))))))"
  unfolding result_of_def build_regression_model_def Let_def fst_seq_prints fst_seq_print
    fst_bind_lift fst_return
  by (cases ii) (simp_all cong: sum.case_cong)

section \<open>Grouping and indicator columns\<close>

lemma set_somes: "set (somes xs) = {x. Some x \<in> set xs}"
  by (induction xs rule: somes.induct) auto

lemma set_group_keys: "set (group_keys ks) = {k. Some k \<in> set ks}"
  by (simp add: group_keys_def set_somes)

lemma distinct_group_keys: "distinct (group_keys ks)"
  by (simp add: group_keys_def)

lemma sorted_group_keys: "sorted (group_keys ks)"
  by (simp add: group_keys_def)

lemma dummy_names: "map fst (get_dummies pfx col) = map (\<lambda>v. pfx @ ''_'' @ v) (group_keys col)"
  by (simp add: get_dummies_def comp_def)

lemma drop_without_count:
  assumes "Some ''COUNT'' \<notin> set ops"
  shows "drop_column ''Op_COUNT'' (get_dummies ''Op'' ops)
           = Inl (KeyError (''['' @ [CHR 0x27] @ ''Op_COUNT'' @ [CHR 0x27] @ ''] not found in axis''))"
proof -
  have "''Op_COUNT'' \<notin> set (map fst (get_dummies ''Op'' ops))"
    using assms by (auto simp: dummy_names set_group_keys)
  then show ?thesis by (simp add: drop_column_def)
qed

lemma drop_with_count:
  assumes "Some ''COUNT'' \<in> set ops"
  shows "drop_column ''Op_COUNT'' (get_dummies ''Op'' ops)
           = Inr (map (\<lambda>v. (''Op_'' @ v, map (\<lambda>c. BoolCell (c = Some v)) ops))
                    (filter (\<lambda>v. v \<noteq> ''COUNT'') (group_keys ops)))"
proof -
  have "''Op_COUNT'' \<in> set (map fst (get_dummies ''Op'' ops))"
    using assms by (auto simp: dummy_names set_group_keys image_iff)
  then show ?thesis
    by (simp add: drop_column_def get_dummies_def filter_map comp_def)
qed

lemma loc_without_label:
  assumes "r \<notin> set (map fst (snd t))"
  shows "loc t r c = Inl (KeyError r)"
proof -
  have "map_of (snd t) r = None" using assms by (simp add: map_of_eq_None_iff)
  then show ?thesis by (simp add: loc_def)
qed

lemma groupby_labels: "map fst (snd (groupby_agg lib ks vs names)) = group_keys ks"
  by (simp add: groupby_agg_def comp_def)

lemma per_row_result:
  "result_of (analyze_per_row_costs lib df) =
     (let per_row = groupby_agg lib (map Operation df) (map PushRowAvg df) [''mean'', ''std'']
      in case loc per_row ''COUNT'' ''mean'' of
           Inl e \<Rightarrow> Inl e
         | Inr baseline \<Rightarrow>
            (case table_column ''mean'' (fst per_row) (snd per_row) of
               Inl e \<Rightarrow> Inl e
             | Inr means \<Rightarrow> Inr ()))"
  unfolding result_of_def analyze_per_row_costs_def Let_def banner_def fst_seq_prints fst_seq_print
    fst_bind_lift
  by (simp add: print_def cong: sum.case_cong)

lemma per_row_without_count:
  assumes "Some ''COUNT'' \<notin> set (map Operation df)"
  shows "result_of (analyze_per_row_costs lib df) = Inl (KeyError ''COUNT'')"
proof -
  have "''COUNT'' \<notin> set (map fst (snd (groupby_agg lib (map Operation df) (map PushRowAvg df)
            [''mean'', ''std''])))"
    using assms unfolding groupby_labels by (simp add: set_group_keys)
  from loc_without_label[OF this] show ?thesis
    by (simp add: per_row_result Let_def)
qed

lemma build_without_count:
  assumes "Some ''COUNT'' \<notin> set (map Operation df)"
  shows "result_of (build_regression_model lib df target ii)
           = Inl (KeyError (''['' @ [CHR 0x27] @ ''Op_COUNT'' @ [CHR 0x27] @ ''] not found in axis''))"
  by (simp only: build_result drop_without_count[OF assms] sum.case)

lemma Operation_prepare: "map Operation (prepare t) = map Operation t"
  by (simp add: prepare_def row.defs comp_def)

section \<open>Failing stages\<close>

lemma pipeline_loaded:
  assumes "fst (load_and_prepare_data lib p w) = Inr df"
  shows "(fst (pipeline lib p w), files (snd (pipeline lib p w))) =
    (case result_of (analyze_per_row_costs lib df) of
       Inl e \<Rightarrow> (Inl e, files w)
     | Inr u \<Rightarrow>
        (case result_of (build_regression_model lib df ''TotalGas'' True) of
           Inl e \<Rightarrow> (Inl e, files w)
         | Inr (m, X, y, yp, cd) \<Rightarrow>
            (case result_of (build_regression_model lib df ''PushRowTotal'' True) of
               Inl e \<Rightarrow> (Inl e, files w)
             | Inr v \<Rightarrow>
                if length yp \<noteq> length df then (Inl ValueError, files w)
                else (Inr (), (files w)(''gas_analysis.png'' \<mapsto> savefig lib (panels lib df yp cd),
                                       ''estimateJobGas.ts'' \<mapsto> estimator_code m cd)))))"
proof -
  obtain w1 where l: "load_and_prepare_data lib p w = (Inr df, w1)"
    using assms by (cases "load_and_prepare_data lib p w") auto
  have fw: "files w1 = files w" using load_files[of lib p w] l by simp
  from pipeline_outcome[OF l] show ?thesis unfolding fw .
qed

lemma pipeline_failure_keeps_files:
  "fst (pipeline lib p w) = Inl e \<Longrightarrow> files (snd (pipeline lib p w)) = files w"
proof (cases "fst (load_and_prepare_data lib p w)")
  case (Inl e')
  then show ?thesis by (simp add: pipeline_load_error)
next
  case (Inr df)
  assume "fst (pipeline lib p w) = Inl e"
  with pipeline_loaded[OF Inr] show ?thesis
    by (auto split: sum.splits prod.splits if_splits)
qed

lemma pipeline_stage_failure:
  assumes "fst (load_and_prepare_data lib p w) = Inr df"
    and "result_of (analyze_per_row_costs lib df) = Inl e
         \<or> result_of (build_regression_model lib df ''TotalGas'' True) = Inl e
         \<or> result_of (build_regression_model lib df ''PushRowTotal'' True) = Inl e"
  shows "\<exists>e'. fst (pipeline lib p w) = Inl e'"
  using pipeline_loaded[OF assms(1)] assms(2)
  by (auto split: sum.splits prod.splits if_splits)

lemma main_failure:
  assumes "2 \<le> length argv" and "fst (pipeline lib (argv ! 1) w) = Inl e"
  shows "fst (main lib argv w) = 1" and "files (snd (main lib argv w)) = files w"
  using assms by (simp_all add: main_exit main_files pipeline_failure_keeps_files)

text \<open>
  Claim C9. When the loaded table has no row whose Operation is COUNT, the empty table
  included, the run exits with status 1 and no file is written. Both stages that rely on
  COUNT fail on such a table: the per-row analysis raises KeyError on the label COUNT of the
  baseline, and the fitter raises KeyError when it drops the column Op_COUNT.
\<close>

theorem no_count_aborts:
  assumes "2 \<le> length argv"
    and "fst (load_and_prepare_data lib (argv ! 1) w) = Inr df"
    and "Some ''COUNT'' \<notin> set (map Operation df)"
  shows "fst (main lib argv w) = 1 \<and> files (snd (main lib argv w)) = files w
       \<and> fst (analyze_per_row_costs lib df w1) = Inl (KeyError ''COUNT'')
       \<and> fst (build_regression_model lib df target ii w2) =
           Inl (KeyError (''['' @ [CHR 0x27] @ ''Op_COUNT'' @ [CHR 0x27] @ ''] not found in axis''))"
proof -
  have pr: "result_of (analyze_per_row_costs lib df) = Inl (KeyError ''COUNT'')"
    by (rule per_row_without_count[OF assms(3)])
  then obtain e' where "fst (pipeline lib (argv ! 1) w) = Inl e'"
    using pipeline_stage_failure[OF assms(2)] by blast
  from main_failure[OF assms(1) this] pr build_without_count[OF assms(3)]
  show ?thesis by (simp add: per_row_eq build_eq)
qed

text \<open>
  Claim C10, amended. On a run that ends with status 0, the two files written are determined
  by the first fit, the one of TotalGas: the image is rendered from its predictions and
  coefficient table, the estimator from its model and coefficient table, and nothing that the
  second fit returns reaches a file. The second fit must still succeed: when it raises, the
  run ends with status 1 and no file is written.
\<close>

theorem second_fit_discarded:
  assumes "2 \<le> length argv"
    and "fst (load_and_prepare_data lib (argv ! 1) w) = Inr df"
  shows "(fst (main lib argv w) = 0 \<longrightarrow>
            (\<exists>model X y y_pred coef_df.
               fst (build_regression_model lib df ''TotalGas'' True w) =
                 Inr (model, X, y, y_pred, coef_df) \<and>
               files (snd (main lib argv w)) =
                 (files w)(''gas_analysis.png'' \<mapsto> savefig lib (panels lib df y_pred coef_df),
                           ''estimateJobGas.ts'' \<mapsto> estimator_code model coef_df)))
       \<and> (\<forall>e. fst (build_regression_model lib df ''PushRowTotal'' True w) = Inl e \<longrightarrow>
            fst (main lib argv w) = 1 \<and> files (snd (main lib argv w)) = files w)"
proof (intro conjI impI allI)
  assume "fst (main lib argv w) = 0"
  then have ok: "fst (pipeline lib (argv ! 1) w) = Inr ()"
    using assms(1) by (auto simp: main_exit split: sum.splits)
  with pipeline_loaded[OF assms(2)]
  show "\<exists>model X y y_pred coef_df.
          fst (build_regression_model lib df ''TotalGas'' True w) =
            Inr (model, X, y, y_pred, coef_df) \<and>
          files (snd (main lib argv w)) =
            (files w)(''gas_analysis.png'' \<mapsto> savefig lib (panels lib df y_pred coef_df),
                      ''estimateJobGas.ts'' \<mapsto> estimator_code model coef_df)"
    using assms(1) by (auto simp: main_files build_eq split: sum.splits prod.splits if_splits)
next
  fix e
  assume "fst (build_regression_model lib df ''PushRowTotal'' True w) = Inl e"
  then have "result_of (build_regression_model lib df ''PushRowTotal'' True) = Inl e"
    by (simp add: build_eq)
  then obtain e' where "fst (pipeline lib (argv ! 1) w) = Inl e'"
    using pipeline_stage_failure[OF assms(2)] by blast
  from main_failure[OF assms(1) this]
  show "fst (main lib argv w) = 1" and "files (snd (main lib argv w)) = files w" .
qed

section \<open>Runs of the small instance\<close>

lemma sample_load:
  "c \<in> {''A'', ''B'', ''C'', ''D''} \<Longrightarrow> parse_csv sample_libs c = Inr t \<Longrightarrow>
   fst (load_and_prepare_data sample_libs (sample_argv ! 1) (sample_world c)) = Inr (prepare t)"
  by (rule load_ok[of _ _ c]) (simp_all add: sample_argv_def sample_world_def)

lemma sample_parse:
  "parse_csv sample_libs ''A'' = Inr table_A"
  "parse_csv sample_libs ''B'' = Inr table_B"
  "parse_csv sample_libs ''C'' = Inr table_C"
  "parse_csv sample_libs ''D'' = Inr table_D"
  by (simp_all add: sample_libs_def)

lemma sample_A_per_row: "result_of (analyze_per_row_costs sample_libs (prepare table_A)) = Inr ()"
  by code_simp

lemma sample_A_first_fit:
  "case result_of (build_regression_model sample_libs (prepare table_A) ''TotalGas'' True) of
     Inl e \<Rightarrow> False
   | Inr (m, X, y, yp, cd) \<Rightarrow> length yp = length (prepare table_A)"
  by code_simp

lemma sample_A_second_fit:
  "\<not> isl (result_of (build_regression_model sample_libs (prepare table_A) ''PushRowTotal'' True))"
  by code_simp

lemma sample_A_run: "fst (pipeline sample_libs (sample_argv ! 1) (sample_world ''A'')) = Inr ()"
  using pipeline_loaded[OF sample_load[OF _ sample_parse(1)]] sample_A_per_row sample_A_first_fit
    sample_A_second_fit
  by (auto split: sum.splits prod.splits if_splits)

lemma sample_A_exit: "fst (main sample_libs sample_argv (sample_world ''A'')) = 0"
  using sample_A_run by (simp add: main_exit sample_argv_def)

lemma sample_B_first_fit:
  "result_of (build_regression_model sample_libs (prepare table_B) ''TotalGas'' True)
     = result_of (build_regression_model sample_libs (prepare table_A) ''TotalGas'' True)"
  by code_simp

lemma sample_B_second_fit:
  "result_of (build_regression_model sample_libs (prepare table_B) ''PushRowTotal'' True)
     = Inl ValueError"
  by code_simp

lemma sample_C_no_count: "Some ''COUNT'' \<notin> set (map Operation (prepare table_C))"
  by (simp add: Operation_prepare table_C_def obs_def)

theorem no_count_aborts_witness:
  "2 \<le> length sample_argv \<and>
   fst (load_and_prepare_data sample_libs (sample_argv ! 1) (sample_world ''C''))
     = Inr (prepare table_C) \<and>
   Some ''COUNT'' \<notin> set (map Operation (prepare table_C)) \<and>
   fst (main sample_libs sample_argv (sample_world ''C'')) = 1 \<and>
   files (snd (main sample_libs sample_argv (sample_world ''C''))) = files (sample_world ''C'') \<and>
   fst (analyze_per_row_costs sample_libs (prepare table_C) world0) = Inl (KeyError ''COUNT'') \<and>
   fst (build_regression_model sample_libs (prepare table_C) ''TotalGas'' True world0) =
     Inl (KeyError (''['' @ [CHR 0x27] @ ''Op_COUNT'' @ [CHR 0x27] @ ''] not found in axis''))"
proof -
  have h1: "2 \<le> length sample_argv" by (simp add: sample_argv_def)
  have h2: "fst (load_and_prepare_data sample_libs (sample_argv ! 1) (sample_world ''C''))
              = Inr (prepare table_C)"
    by (rule sample_load[OF _ sample_parse(3)]) simp
  from no_count_aborts[OF h1 h2 sample_C_no_count, of world0 "''TotalGas''" True world0]
  show ?thesis using h1 h2 sample_C_no_count by simp
qed

theorem second_fit_discarded_witness:
  "2 \<le> length sample_argv \<and>
   fst (load_and_prepare_data sample_libs (sample_argv ! 1) (sample_world ''A''))
     = Inr (prepare table_A) \<and>
   fst (main sample_libs sample_argv (sample_world ''A'')) = 0 \<and>
   (\<exists>model X y y_pred coef_df.
      fst (build_regression_model sample_libs (prepare table_A) ''TotalGas'' True
             (sample_world ''A'')) = Inr (model, X, y, y_pred, coef_df) \<and>
      files (snd (main sample_libs sample_argv (sample_world ''A''))) =
        (files (sample_world ''A''))
          (''gas_analysis.png'' \<mapsto>
             savefig sample_libs (panels sample_libs (prepare table_A) y_pred coef_df),
           ''estimateJobGas.ts'' \<mapsto> estimator_code model coef_df))"
proof -
  have h1: "2 \<le> length sample_argv" by (simp add: sample_argv_def)
  have h2: "fst (load_and_prepare_data sample_libs (sample_argv ! 1) (sample_world ''A''))
              = Inr (prepare table_A)"
    by (rule sample_load[OF _ sample_parse(1)]) simp
  from second_fit_discarded[OF h1 h2] sample_A_exit
  show ?thesis using h1 h2 by blast
qed

section \<open>Dependence on the input\<close>

text \<open>
  Claim C10 as stated, that the second fit has no effect on either output file, fails.
  Tables A and B differ in the column PushRowTotal only, and the first fit is the same on
  both. On A the run writes both files. On B, where one PushRowTotal cell is missing, the
  second fit raises ValueError, the run ends with status 1 and neither file exists.
\<close>

theorem second_fit_counterexample:
  "fst (main sample_libs sample_argv (sample_world ''A'')) = 0 \<and>
   files (snd (main sample_libs sample_argv (sample_world ''A''))) ''estimateJobGas.ts'' \<noteq> None \<and>
   files (snd (main sample_libs sample_argv (sample_world ''A''))) ''gas_analysis.png'' \<noteq> None \<and>
   map (\<lambda>r. r\<lparr>PushRowTotal := NaN\<rparr>) table_B = map (\<lambda>r. r\<lparr>PushRowTotal := NaN\<rparr>) table_A \<and>
   fst (build_regression_model sample_libs (prepare table_B) ''TotalGas'' True world0) =
     fst (build_regression_model sample_libs (prepare table_A) ''TotalGas'' True world0) \<and>
   fst (build_regression_model sample_libs (prepare table_B) ''PushRowTotal'' True world0) =
     Inl ValueError \<and>
   fst (main sample_libs sample_argv (sample_world ''B'')) = 1 \<and>
   files (snd (main sample_libs sample_argv (sample_world ''B''))) ''estimateJobGas.ts'' = None \<and>
   files (snd (main sample_libs sample_argv (sample_world ''B''))) ''gas_analysis.png'' = None"
proof -
  have h1: "2 \<le> length sample_argv" by (simp add: sample_argv_def)
  have hA: "fst (load_and_prepare_data sample_libs (sample_argv ! 1) (sample_world ''A''))
              = Inr (prepare table_A)"
    by (rule sample_load[OF _ sample_parse(1)]) simp
  have hB: "fst (load_and_prepare_data sample_libs (sample_argv ! 1) (sample_world ''B''))
              = Inr (prepare table_B)"
    by (rule sample_load[OF _ sample_parse(2)]) simp
  have a: "files (snd (main sample_libs sample_argv (sample_world ''A''))) ''estimateJobGas.ts'' \<noteq> None"
       "files (snd (main sample_libs sample_argv (sample_world ''A''))) ''gas_analysis.png'' \<noteq> None"
    using pipeline_loaded[OF hA] sample_A_run h1
    by (auto simp: main_files split: sum.splits prod.splits if_splits)
  obtain e where "fst (pipeline sample_libs (sample_argv ! 1) (sample_world ''B'')) = Inl e"
    using pipeline_stage_failure[OF hB] sample_B_second_fit by blast
  from main_failure[OF h1 this]
  have b: "fst (main sample_libs sample_argv (sample_world ''B'')) = 1"
       "files (snd (main sample_libs sample_argv (sample_world ''B''))) = files (sample_world ''B'')"
    by simp_all
  have c: "map (\<lambda>r. r\<lparr>PushRowTotal := NaN\<rparr>) table_B = map (\<lambda>r. r\<lparr>PushRowTotal := NaN\<rparr>) table_A"
    by (simp add: table_A_def table_B_def obs_def)
  show ?thesis
    using sample_A_exit a b c sample_B_first_fit sample_B_second_fit
    by (simp add: build_eq sample_world_def)
qed

lemma pipeline_depends_on_content:
  assumes "files w1 p1 = files w2 p2"
  shows "fst (pipeline lib p1 w1) = fst (pipeline lib p2 w2)"
    and "fst (pipeline lib p1 w1) = Inr () \<Longrightarrow>
         files (snd (pipeline lib p1 w1)) ''estimateJobGas.ts''
           = files (snd (pipeline lib p2 w2)) ''estimateJobGas.ts'' \<and>
         files (snd (pipeline lib p1 w1)) ''gas_analysis.png''
           = files (snd (pipeline lib p2 w2)) ''gas_analysis.png'' \<and>
         files (snd (pipeline lib p1 w1)) ''estimateJobGas.ts'' \<noteq> None"
proof -
  have l: "fst (load_and_prepare_data lib p1 w1) = fst (load_and_prepare_data lib p2 w2)"
    by (simp add: load_result assms)
  show "fst (pipeline lib p1 w1) = fst (pipeline lib p2 w2)"
  proof (cases "fst (load_and_prepare_data lib p1 w1)")
    case (Inl e)
    then show ?thesis using l by (simp add: pipeline_load_error)
  next
    case (Inr df)
    from pipeline_loaded[OF Inr] pipeline_loaded[OF Inr[unfolded l]]
    show ?thesis by (auto split: sum.splits prod.splits if_splits)
  qed
  show "files (snd (pipeline lib p1 w1)) ''estimateJobGas.ts''
           = files (snd (pipeline lib p2 w2)) ''estimateJobGas.ts'' \<and>
         files (snd (pipeline lib p1 w1)) ''gas_analysis.png''
           = files (snd (pipeline lib p2 w2)) ''gas_analysis.png'' \<and>
         files (snd (pipeline lib p1 w1)) ''estimateJobGas.ts'' \<noteq> None"
    if ok: "fst (pipeline lib p1 w1) = Inr ()"
  proof (cases "fst (load_and_prepare_data lib p1 w1)")
    case (Inl e)
    then show ?thesis using ok by (simp add: pipeline_load_error)
  next
    case (Inr df)
    from pipeline_loaded[OF Inr] pipeline_loaded[OF Inr[unfolded l]] ok
    show ?thesis by (auto split: sum.splits prod.splits if_splits)
  qed
qed

text \<open>
  Claim C4. Two runs whose input files have the same content end with the same status, and
  when that status is 0 both have written the same estimator text, and the same image. The
  runs may start in different worlds and name the input by different paths.
\<close>

theorem rerun_identical:
  assumes "2 \<le> length argv1" and "2 \<le> length argv2"
    and "files w1 (argv1 ! 1) = files w2 (argv2 ! 1)"
  shows "fst (main lib argv1 w1) = fst (main lib argv2 w2) \<and>
         (fst (main lib argv1 w1) = 0 \<longrightarrow>
            files (snd (main lib argv1 w1)) ''estimateJobGas.ts''
              = files (snd (main lib argv2 w2)) ''estimateJobGas.ts'' \<and>
            files (snd (main lib argv1 w1)) ''gas_analysis.png''
              = files (snd (main lib argv2 w2)) ''gas_analysis.png'' \<and>
            files (snd (main lib argv1 w1)) ''estimateJobGas.ts'' \<noteq> None)"
proof -
  note d = pipeline_depends_on_content[OF assms(3), of lib]
  have ex: "fst (main lib argv1 w1) = fst (main lib argv2 w2)"
    using assms(1,2) d(1) by (simp add: main_exit)
  have f: "files (snd (main lib argv1 w1)) = files (snd (pipeline lib (argv1 ! 1) w1))"
       "files (snd (main lib argv2 w2)) = files (snd (pipeline lib (argv2 ! 1) w2))"
    using assms(1,2) by (simp_all add: main_files)
  have p: "fst (pipeline lib (argv1 ! 1) w1) = Inr ()" if "fst (main lib argv1 w1) = 0"
    using that assms(1) by (auto simp: main_exit split: sum.splits)
  show ?thesis
  proof (intro conjI impI)
    show "fst (main lib argv1 w1) = fst (main lib argv2 w2)" by (rule ex)
  next
    assume z: "fst (main lib argv1 w1) = 0"
    from d(2)[OF p[OF z]]
    show "files (snd (main lib argv1 w1)) ''estimateJobGas.ts''
            = files (snd (main lib argv2 w2)) ''estimateJobGas.ts''"
      and "files (snd (main lib argv1 w1)) ''gas_analysis.png''
            = files (snd (main lib argv2 w2)) ''gas_analysis.png''"
      and "files (snd (main lib argv1 w1)) ''estimateJobGas.ts'' \<noteq> None"
      unfolding f by blast+
  qed
qed

section \<open>The thresholds\<close>

lemma sample_A_input_kept:
  "files (snd (main sample_libs sample_argv (sample_world ''A''))) (sample_argv ! 1)
     = files (sample_world ''A'') (sample_argv ! 1)"
proof -
  have hA: "fst (load_and_prepare_data sample_libs (sample_argv ! 1) (sample_world ''A''))
              = Inr (prepare table_A)"
    by (rule sample_load[OF _ sample_parse(1)]) simp
  from pipeline_loaded[OF hA] sample_A_run show ?thesis
    by (auto simp: main_files sample_argv_def split: sum.splits prod.splits if_splits)
qed

theorem rerun_identical_witness:
  "2 \<le> length sample_argv \<and>
   files (sample_world ''A'') (sample_argv ! 1)
     = files (snd (main sample_libs sample_argv (sample_world ''A''))) (sample_argv ! 1) \<and>
   fst (main sample_libs sample_argv (sample_world ''A'')) = 0 \<and>
   fst (main sample_libs sample_argv (snd (main sample_libs sample_argv (sample_world ''A'')))) = 0 \<and>
   files (snd (main sample_libs sample_argv (sample_world ''A''))) ''estimateJobGas.ts''
     = files (snd (main sample_libs sample_argv
                (snd (main sample_libs sample_argv (sample_world ''A''))))) ''estimateJobGas.ts'' \<and>
   files (snd (main sample_libs sample_argv (sample_world ''A''))) ''estimateJobGas.ts'' \<noteq> None"
proof -
  have h1: "2 \<le> length sample_argv" by (simp add: sample_argv_def)
  have h3: "files (sample_world ''A'') (sample_argv ! 1)
     = files (snd (main sample_libs sample_argv (sample_world ''A''))) (sample_argv ! 1)"
    by (rule sample_A_input_kept[symmetric])
  note r = rerun_identical[OF h1 h1 h3, of sample_libs]
  from r sample_A_exit
  have e: "fst (main sample_libs sample_argv
                 (snd (main sample_libs sample_argv (sample_world ''A'')))) = 0"
    by simp
  from r sample_A_exit
  have f: "files (snd (main sample_libs sample_argv (sample_world ''A''))) ''estimateJobGas.ts''
     = files (snd (main sample_libs sample_argv
                (snd (main sample_libs sample_argv (sample_world ''A''))))) ''estimateJobGas.ts''"
    and g: "files (snd (main sample_libs sample_argv (sample_world ''A''))) ''estimateJobGas.ts''
              \<noteq> None"
    by blast+
  show ?thesis using h1 h3 sample_A_exit e f g by blast
qed

lemma with_metrics_sel:
  "parse_csv (with_metrics lib a b) = parse_csv lib"
  "agg_fn (with_metrics lib a b) = agg_fn lib"
  "fdiv (with_metrics lib a b) = fdiv lib"
  "lr_fit (with_metrics lib a b) = lr_fit lib"
  "lr_predict (with_metrics lib a b) = lr_predict lib"
  "savefig (with_metrics lib a b) = savefig lib"
  "r2_score (with_metrics lib a b) = (\<lambda>y p. Inr a)"
  "mean_absolute_percentage_error (with_metrics lib a b) = (\<lambda>y p. Inr b)"
  by (simp_all add: with_metrics_def)

lemma metrics_irrelevant:
  assumes "result_of (build_regression_model lib df t ii) = Inr res"
  shows "result_of (build_regression_model (with_metrics lib a b) df t ii) = Inr res"
proof -
  let ?d = "drop_column ''Op_COUNT'' (get_dummies ''Op'' (map Operation df))"
  from assms obtain d where d: "?d = Inr d"
    unfolding build_result by (cases ?d) auto
  define X where "X = [(''Rows'', int64_series (map Rows df)),
                   (''Columns'', int64_series (map Columns df)),
                   (''FilterBytes'', opt_series (map FilterBytes df))] @
                  (if ii then [(''Rows_x_Columns'',
                                int64_series (map (\<lambda>r. Rows r * Columns r) df))] else []) @ d"
  have r: "\<And>l. result_of (build_regression_model l df t ii) =
     (case getitem df t of
               Inl e \<Rightarrow> Inl e
             | Inr y \<Rightarrow>
                (case lr_fit l X y of
                   Inl e \<Rightarrow> Inl e
                 | Inr m \<Rightarrow>
                    (case r2_score l y (lr_predict l m X) of
                       Inl e \<Rightarrow> Inl e
                     | Inr r2 \<Rightarrow>
                        (case mean_absolute_percentage_error l y (lr_predict l m X) of
                           Inl e \<Rightarrow> Inl e
                         | Inr mp \<Rightarrow>
                            (case coef_table (map fst X) (model_coef m) of
                               Inl e \<Rightarrow> Inl e
                             | Inr u \<Rightarrow> Inr (m, X, y, lr_predict l m X,
                                              sort_values_desc Coefficient u))))))"
    unfolding build_result d X_def Let_def by simp
  from assms show ?thesis
    unfolding r with_metrics_sel by (auto split: sum.splits)
qed

lemma with_metrics_per_row:
  "result_of (analyze_per_row_costs (with_metrics lib a b) df)
     = result_of (analyze_per_row_costs lib df)"
  unfolding per_row_result groupby_agg_def with_metrics_sel ..

lemma with_metrics_load:
  "fst (load_and_prepare_data (with_metrics lib a b) p w) = fst (load_and_prepare_data lib p w)"
  unfolding load_result with_metrics_sel ..

lemma with_metrics_panels: "panels (with_metrics lib a b) = panels lib"
  by (intro ext) (simp add: panels_def with_metrics_sel)

lemma pipeline_ok_loaded:
  assumes "fst (pipeline lib p w) = Inr ()"
  shows "\<exists>df. fst (load_and_prepare_data lib p w) = Inr df"
  using assms pipeline_load_error(1)[of lib p w]
  by (cases "fst (load_and_prepare_data lib p w)") auto

lemma with_metrics_pipeline:
  assumes ok: "fst (pipeline lib p w) = Inr ()"
  shows "fst (pipeline (with_metrics lib a b) p w) = Inr ()"
    and "files (snd (pipeline (with_metrics lib a b) p w)) = files (snd (pipeline lib p w))"
proof -
  from pipeline_ok_loaded[OF ok] obtain df where
    ld: "fst (load_and_prepare_data lib p w) = Inr df" by blast
  have ld': "fst (load_and_prepare_data (with_metrics lib a b) p w) = Inr df"
    by (simp add: with_metrics_load ld)
  from pipeline_loaded[OF ld] ok obtain m X y yp cd v where
    r1: "result_of (build_regression_model lib df ''TotalGas'' True) = Inr (m, X, y, yp, cd)" and
    r2: "result_of (build_regression_model lib df ''PushRowTotal'' True) = Inr v" and
    r0: "result_of (analyze_per_row_costs lib df) = Inr ()" and
    ln: "length yp = length df" and
    fs: "files (snd (pipeline lib p w)) =
           (files w)(''gas_analysis.png'' \<mapsto> savefig lib (panels lib df yp cd),
                     ''estimateJobGas.ts'' \<mapsto> estimator_code m cd)"
    by (auto split: sum.splits prod.splits if_splits)
  from pipeline_loaded[OF ld'] metrics_irrelevant[OF r1, of a b] metrics_irrelevant[OF r2, of a b]
    r0 ln
  have "fst (pipeline (with_metrics lib a b) p w) = Inr ()"
    and "files (snd (pipeline (with_metrics lib a b) p w)) =
           (files w)(''gas_analysis.png'' \<mapsto> savefig lib (panels lib df yp cd),
                     ''estimateJobGas.ts'' \<mapsto> estimator_code m cd)"
    by (simp_all add: with_metrics_per_row with_metrics_panels with_metrics_sel)
  with fs show "fst (pipeline (with_metrics lib a b) p w) = Inr ()"
    and "files (snd (pipeline (with_metrics lib a b) p w)) = files (snd (pipeline lib p w))"
    by simp_all
qed

text \<open>
  Claim C7. The comparisons of R2 with 0.60 and of MAPE with 40 only choose what is
  printed. Whatever the two metrics are, the fitter returns the same model, matrix, target,
  predictions and coefficient table, and a run that ends with status 0 still ends with status
  0 and writes the same files.
\<close>

theorem thresholds_only_print:
  "(fst (build_regression_model lib df target ii w) = Inr res \<longrightarrow>
      fst (build_regression_model (with_metrics lib a b) df target ii w) = Inr res)
   \<and> (fst (main lib argv w) = 0 \<longrightarrow>
        fst (main (with_metrics lib a b) argv w) = 0 \<and>
        files (snd (main (with_metrics lib a b) argv w)) = files (snd (main lib argv w)))"
proof (intro conjI impI)
  assume "fst (build_regression_model lib df target ii w) = Inr res"
  then show "fst (build_regression_model (with_metrics lib a b) df target ii w) = Inr res"
    by (simp add: build_eq metrics_irrelevant)
next
  assume z: "fst (main lib argv w) = 0"
  then have len: "\<not> length argv < 2" by (auto simp: main_exit split: if_splits)
  from z len have ok: "fst (pipeline lib (argv ! 1) w) = Inr ()"
    by (auto simp: main_exit split: sum.splits)
  note wm = with_metrics_pipeline[OF ok, of a b]
  show "fst (main (with_metrics lib a b) argv w) = 0"
    unfolding main_exit wm(1) using len by simp
  show "files (snd (main (with_metrics lib a b) argv w)) = files (snd (main lib argv w))"
    unfolding main_files wm(2) ..
qed

section \<open>Instances of the invocation and threshold results\<close>

theorem missing_argument_witness:
  "length [''analyze_gas_results.py''] < 2 \<and>
   main sample_libs [''analyze_gas_results.py''] (sample_world ''A'') =
     (1, (sample_world ''A'')\<lparr>stdout := stdout (sample_world ''A'') @
            [''Usage: python analyze_gas_results.py <csv_file>'',
             [CHR 0x0A] @
             ''Example: python analyze_gas_results.py gas_benchmark_results.csv'']\<rparr>)"
  using missing_argument[of "[''analyze_gas_results.py'']" sample_libs "sample_world ''A''"]
  by simp

theorem nonexistent_input_witness:
  "2 \<le> length [''analyze_gas_results.py'', ''missing.csv''] \<and>
   files (sample_world ''A'') ([''analyze_gas_results.py'', ''missing.csv''] ! 1) = None \<and>
   fst (main sample_libs [''analyze_gas_results.py'', ''missing.csv''] (sample_world ''A'')) = 1 \<and>
   files (snd (main sample_libs [''analyze_gas_results.py'', ''missing.csv''] (sample_world ''A'')))
     = files (sample_world ''A'')"
  using nonexistent_input[of "[''analyze_gas_results.py'', ''missing.csv'']"
      "sample_world ''A''" sample_libs]
  by (simp add: sample_world_def)

lemma sample_metrics:
  "float_ge (Finite 1) threshold_r2" "float_le (Finite 0) threshold_mape"
  "\<not> float_ge (Finite 0) threshold_r2" "\<not> float_le (Finite 100) threshold_mape"
  by (simp_all add: float_ge_def threshold_r2_def threshold_mape_def)

theorem thresholds_only_print_witness:
  "r2_score sample_libs [] [] = Inr (Finite 1) \<and> float_ge (Finite 1) threshold_r2 \<and>
   mean_absolute_percentage_error sample_libs [] [] = Inr (Finite 0) \<and>
   float_le (Finite 0) threshold_mape \<and>
   \<not> float_ge (Finite 0) threshold_r2 \<and> \<not> float_le (Finite 100) threshold_mape \<and>
   fst (main sample_libs sample_argv (sample_world ''A'')) = 0 \<and>
   fst (main (with_metrics sample_libs (Finite 0) (Finite 100)) sample_argv (sample_world ''A'')) = 0 \<and>
   files (snd (main (with_metrics sample_libs (Finite 0) (Finite 100)) sample_argv
                (sample_world ''A'')))
     = files (snd (main sample_libs sample_argv (sample_world ''A''))) \<and>
   (\<exists>res. fst (build_regression_model sample_libs (prepare table_A) ''TotalGas'' True
                 (sample_world ''A'')) = Inr res \<and>
          fst (build_regression_model (with_metrics sample_libs (Finite 0) (Finite 100))
                 (prepare table_A) ''TotalGas'' True (sample_world ''A'')) = Inr res)"
proof -
  obtain res where
    r: "fst (build_regression_model sample_libs (prepare table_A) ''TotalGas'' True
              (sample_world ''A'')) = Inr res"
    using sample_A_first_fit
    by (cases "result_of (build_regression_model sample_libs (prepare table_A) ''TotalGas'' True)")
       (auto simp: build_eq)
  note t = thresholds_only_print[of sample_libs "prepare table_A" "''TotalGas''" True
      "sample_world ''A''" res "Finite 0" "Finite 100" sample_argv]
  have m: "r2_score sample_libs [] [] = Inr (Finite 1)"
          "mean_absolute_percentage_error sample_libs [] [] = Inr (Finite 0)"
    by (simp_all add: sample_libs_def)
  from t r sample_A_exit sample_metrics m show ?thesis by blast
qed

section \<open>The lookup of FilterBytes\<close>

lemma FilterBytes_prepare:
  "r \<in> set (prepare t) \<Longrightarrow>
   FilterBytes r = series_map filter_bytecode_map (FilterComplexity r)"
  by (auto simp: prepare_def row.defs prow.defs)

lemma truncate_prepare: "map row.truncate (prepare t) = t"
  by (induction t) (simp_all add: prepare_def row.defs prow.defs)

lemma series_map_lookup:
  "series_map filter_bytecode_map c =
     (if c = Some ''none'' then Some 0
      else if c = Some ''simple'' then Some 7
      else if c = Some ''medium'' then Some 15
      else if c = Some ''complex'' then Some 30
      else None)"
  by (cases c) (simp_all add: series_map_def filter_bytecode_map_def)

text \<open>
  Claim C3. The loaded table is the table read from the file with one more column,
  FilterBytes, and on every row FilterBytes is given by the FilterComplexity label alone:
  0 for none, 7 for simple, 15 for medium, 30 for complex, and missing for any other label
  and for a missing label.
\<close>

theorem filter_bytes_lookup:
  assumes "fst (load_and_prepare_data lib path w) = Inr df"
  shows "\<exists>c t. files w path = Some c \<and> parse_csv lib c = Inr t \<and> map row.truncate df = t \<and>
           (\<forall>r \<in> set df.
              FilterBytes r =
                (if FilterComplexity r = Some ''none'' then Some 0
                 else if FilterComplexity r = Some ''simple'' then Some 7
                 else if FilterComplexity r = Some ''medium'' then Some 15
                 else if FilterComplexity r = Some ''complex'' then Some 30
                 else None))"
proof -
  from assms obtain c t where c: "files w path = Some c" and t: "parse_csv lib c = Inr t"
    and df: "df = prepare t"
    unfolding load_result by (auto split: option.splits sum.splits)
  have "\<forall>r \<in> set df.
              FilterBytes r =
                (if FilterComplexity r = Some ''none'' then Some 0
                 else if FilterComplexity r = Some ''simple'' then Some 7
                 else if FilterComplexity r = Some ''medium'' then Some 15
                 else if FilterComplexity r = Some ''complex'' then Some 30
                 else None)"
    unfolding df by (simp add: FilterBytes_prepare series_map_lookup)
  with c t df truncate_prepare[of t] show ?thesis by blast
qed

theorem filter_bytes_lookup_witness:
  "fst (load_and_prepare_data sample_libs (sample_argv ! 1) (sample_world ''D''))
     = Inr (prepare table_D) \<and>
   files (sample_world ''D'') (sample_argv ! 1) = Some ''D'' \<and>
   parse_csv sample_libs ''D'' = Inr table_D \<and>
   map row.truncate (prepare table_D) = table_D \<and>
   map FilterComplexity (prepare table_D) = [Some ''medium'', Some ''huge''] \<and>
   map FilterBytes (prepare table_D) = [Some 15, None]"
proof -
  have h: "fst (load_and_prepare_data sample_libs (sample_argv ! 1) (sample_world ''D''))
     = Inr (prepare table_D)"
    by (rule sample_load[OF _ sample_parse(4)]) simp
  have f: "files (sample_world ''D'') (sample_argv ! 1) = Some ''D''"
    by (simp add: sample_world_def sample_argv_def)
  have c: "map FilterComplexity (prepare table_D) = [Some ''medium'', Some ''huge'']"
    by code_simp
  from filter_bytes_lookup[OF h] obtain c' t where
    l: "files (sample_world ''D'') (sample_argv ! 1) = Some c'"
       "parse_csv sample_libs c' = Inr t" "map row.truncate (prepare table_D) = t"
       "\<forall>r \<in> set (prepare table_D).
          FilterBytes r =
            (if FilterComplexity r = Some ''none'' then Some 0
             else if FilterComplexity r = Some ''simple'' then Some 7
             else if FilterComplexity r = Some ''medium'' then Some 15
             else if FilterComplexity r = Some ''complex'' then Some 30
             else None)"
    by blast
  from l(1) f have c': "c' = ''D''" by simp
  from l(2,3) have t: "map row.truncate (prepare table_D) = table_D"
    unfolding c' sample_parse(4) by simp
  have "map FilterBytes (prepare table_D) =
          map (\<lambda>r. if FilterComplexity r = Some ''none'' then Some 0
             else if FilterComplexity r = Some ''simple'' then Some 7
             else if FilterComplexity r = Some ''medium'' then Some 15
             else if FilterComplexity r = Some ''complex'' then Some 30
             else None) (prepare table_D)"
    using l(4) by (intro map_cong refl) blast
  also have "\<dots> = map (\<lambda>c. if c = Some ''none'' then Some 0
             else if c = Some ''simple'' then Some 7
             else if c = Some ''medium'' then Some 15
             else if c = Some ''complex'' then Some 30
             else None) (map FilterComplexity (prepare table_D))"
    by (simp add: comp_def)
  also have "\<dots> = [Some 15, None]" unfolding c by simp
  finally have v: "map FilterBytes (prepare table_D) = [Some 15, None]" .
  show ?thesis by (intro conjI h f sample_parse(4) t c v)
qed

section \<open>The feature matrix\<close>

lemma drop_column_count:
  assumes "drop_column ''Op_COUNT'' (get_dummies ''Op'' ops) = Inr d"
  shows "Some ''COUNT'' \<in> set ops"
proof (rule ccontr)
  assume "Some ''COUNT'' \<notin> set ops"
  from drop_without_count[OF this] assms show False by simp
qed

lemma opt_series_rows:
  "opt_series (map FilterBytes df) =
     (if None \<in> set (map FilterBytes df)
      then map (\<lambda>r. case FilterBytes r of None \<Rightarrow> FloatCell NaN
                     | Some n \<Rightarrow> FloatCell (Finite (of_int n))) df
      else map (\<lambda>r. case FilterBytes r of None \<Rightarrow> FloatCell NaN | Some n \<Rightarrow> IntCell n) df)"
  by (simp add: opt_series_def comp_def)

lemma build_matrix:
  assumes "result_of (build_regression_model lib df target ii) = Inr (m, X, y, yp, cd)"
  shows "Some ''COUNT'' \<in> set (map Operation df)"
    and "X = [(''Rows'', map (\<lambda>r. IntCell (sint (Rows r))) df),
              (''Columns'', map (\<lambda>r. IntCell (sint (Columns r))) df),
              (''FilterBytes'', opt_series (map FilterBytes df))] @
             (if ii then [(''Rows_x_Columns'', map (\<lambda>r. IntCell (sint (Rows r * Columns r))) df)]
              else []) @
             map (\<lambda>v. (''Op_'' @ v, map (\<lambda>r. BoolCell (Operation r = Some v)) df))
               (filter (\<lambda>v. v \<noteq> ''COUNT'') (group_keys (map Operation df)))"
proof -
  let ?d = "drop_column ''Op_COUNT'' (get_dummies ''Op'' (map Operation df))"
  from assms obtain d where d: "?d = Inr d"
    unfolding build_result by (cases ?d) auto
  from drop_column_count[OF d] show c: "Some ''COUNT'' \<in> set (map Operation df)" .
  from d drop_with_count[OF c]
  have d': "d = map (\<lambda>v. (''Op_'' @ v, map (\<lambda>c. BoolCell (c = Some v)) (map Operation df)))
                  (filter (\<lambda>v. v \<noteq> ''COUNT'') (group_keys (map Operation df)))"
    by simp
  from assms
  have "X = [(''Rows'', int64_series (map Rows df)),
             (''Columns'', int64_series (map Columns df)),
             (''FilterBytes'', opt_series (map FilterBytes df))] @
            (if ii then [(''Rows_x_Columns'',
                          int64_series (map (\<lambda>r. Rows r * Columns r) df))] else []) @ d"
    unfolding build_result d Let_def by (auto split: sum.splits)
  then show "X = [(''Rows'', map (\<lambda>r. IntCell (sint (Rows r))) df),
              (''Columns'', map (\<lambda>r. IntCell (sint (Columns r))) df),
              (''FilterBytes'', opt_series (map FilterBytes df))] @
             (if ii then [(''Rows_x_Columns'', map (\<lambda>r. IntCell (sint (Rows r * Columns r))) df)]
              else []) @
             map (\<lambda>v. (''Op_'' @ v, map (\<lambda>r. BoolCell (Operation r = Some v)) df))
               (filter (\<lambda>v. v \<noteq> ''COUNT'') (group_keys (map Operation df)))"
    unfolding d' by (simp add: int64_series_def comp_def)
qed

lemma int64_product:
  fixes a b :: "64 word"
  assumes "- (2 ^ 63) \<le> sint a * sint b" and "sint a * sint b < 2 ^ 63"
  shows "sint (a * b) = sint a * sint b"
  using assms by (simp add: sint_word_ariths signed_take_bit_int_eq_self)

text \<open>
  Claim C1. The feature matrix that the fitter returns has exactly these columns, in this
  order: Rows, Columns, FilterBytes, then Rows_x_Columns, the product of Rows and Columns of
  each row, when the interaction flag is set, then one column Op_v for each distinct
  Operation value v other than COUNT, which holds on each row whether the row's Operation
  is v. No column stands for COUNT.
\<close>

theorem feature_matrix:
  assumes "fst (build_regression_model lib df target ii w) = Inr (m, X, y, yp, cd)"
  shows "X = [(''Rows'', map (\<lambda>r. IntCell (sint (Rows r))) df),
              (''Columns'', map (\<lambda>r. IntCell (sint (Columns r))) df),
              (''FilterBytes'',
               if None \<in> set (map FilterBytes df)
               then map (\<lambda>r. case FilterBytes r of None \<Rightarrow> FloatCell NaN
                              | Some n \<Rightarrow> FloatCell (Finite (of_int n))) df
               else map (\<lambda>r. case FilterBytes r of None \<Rightarrow> FloatCell NaN
                              | Some n \<Rightarrow> IntCell n) df)] @
             (if ii then [(''Rows_x_Columns'', map (\<lambda>r. IntCell (sint (Rows r * Columns r))) df)]
              else []) @
             map (\<lambda>v. (''Op_'' @ v, map (\<lambda>r. BoolCell (Operation r = Some v)) df))
               (filter (\<lambda>v. v \<noteq> ''COUNT'') (group_keys (map Operation df)))
         \<and> set (filter (\<lambda>v. v \<noteq> ''COUNT'') (group_keys (map Operation df)))
             = {v. Some v \<in> set (map Operation df)} - {''COUNT''}
         \<and> distinct (filter (\<lambda>v. v \<noteq> ''COUNT'') (group_keys (map Operation df)))
         \<and> sorted (filter (\<lambda>v. v \<noteq> ''COUNT'') (group_keys (map Operation df)))
         \<and> ''Op_COUNT'' \<notin> set (map fst X)
         \<and> Some ''COUNT'' \<in> set (map Operation df)
         \<and> (\<forall>r \<in> set df. - (2 ^ 63) \<le> sint (Rows r) * sint (Columns r) \<and>
                           sint (Rows r) * sint (Columns r) < 2 ^ 63 \<longrightarrow>
                sint (Rows r * Columns r) = sint (Rows r) * sint (Columns r))"
proof -
  from assms have r: "result_of (build_regression_model lib df target ii) = Inr (m, X, y, yp, cd)"
    by (simp add: build_eq)
  note b = build_matrix[OF r]
  have s: "set (filter (\<lambda>v. v \<noteq> ''COUNT'') (group_keys (map Operation df)))
             = {v. Some v \<in> set (map Operation df)} - {''COUNT''}"
    unfolding set_filter set_group_keys by blast
  have n: "''Op_COUNT'' \<notin> set (map fst X)"
    unfolding b(2) by (cases ii) (auto simp: comp_def)
  show ?thesis
    using b(1) b(2)[unfolded opt_series_rows] s n distinct_group_keys[of "map Operation df"]
      sorted_group_keys[of "map Operation df"] int64_product
    by (simp add: sorted_wrt_filter)
qed

lemma sample_A_keys: "group_keys (map Operation (prepare table_A)) = [''COUNT'', ''SUM'']"
  by code_simp

theorem feature_matrix_witness:
  "\<exists>m X y yp cd.
     fst (build_regression_model sample_libs (prepare table_A) ''TotalGas'' True world0)
       = Inr (m, X, y, yp, cd) \<and>
     map fst X = [''Rows'', ''Columns'', ''FilterBytes'', ''Rows_x_Columns'', ''Op_SUM''] \<and>
     ''Op_COUNT'' \<notin> set (map fst X) \<and>
     Some ''COUNT'' \<in> set (map Operation (prepare table_A))"
proof -
  obtain m X y yp cd where
    r: "fst (build_regression_model sample_libs (prepare table_A) ''TotalGas'' True world0)
          = Inr (m, X, y, yp, cd)"
    using sample_A_first_fit
    by (cases "result_of (build_regression_model sample_libs (prepare table_A) ''TotalGas'' True)")
       (auto simp: build_eq)
  note f = feature_matrix[OF r]
  from f have n: "map fst X = [''Rows'', ''Columns'', ''FilterBytes'', ''Rows_x_Columns'', ''Op_SUM'']"
    by (simp add: sample_A_keys)
  from f have a: "''Op_COUNT'' \<notin> set (map fst X)"
    and b: "Some ''COUNT'' \<in> set (map Operation (prepare table_A))" by blast+
  show ?thesis
    by (rule exI[of _ m], rule exI[of _ X], rule exI[of _ y], rule exI[of _ yp],
        rule exI[of _ cd]) (intro conjI r n a b)
qed

section \<open>The tables of the reporter\<close>

lemma group_values_rows:
  "group_values k (map f df) (map g df) = map g (filter (\<lambda>r. f r = Some k) df)"
  by (induction df) (simp_all add: group_values_def)

lemma groupby_rows:
  "groupby_agg lib (map f df) (map g df) names =
     (names, map (\<lambda>k. (k, map (\<lambda>n. agg_fn lib n (map g (filter (\<lambda>r. f r = Some k) df))) names))
               (group_keys (map f df)))"
  by (simp add: groupby_agg_def group_values_rows)

lemma stats_run:
  "analyze_basic_statistics lib df w =
     (Inr (), w\<lparr>stdout := stdout w @
        [newline @ rule60, ''Basic Statistics'', rule60 @ newline,
         ''Total Gas by Operation:'',
         str_table lib (total_gas_by_operation lib df),
         newline @ newline @ ''Total Gas by Filter Complexity:'',
         str_table lib (total_gas_by_filter_complexity lib df),
         newline @ newline @ ''Gas Phase Breakdown (averages):'',
         phase_line lib ''  OpenJob:       '' (agg_fn lib ''mean'' (map OpenJobGas df))
           (agg_fn lib ''mean'' (map TotalGas df)),
         phase_line lib ''  PushRow Total: '' (agg_fn lib ''mean'' (map PushRowTotal df))
           (agg_fn lib ''mean'' (map TotalGas df)),
         phase_line lib ''  Finalize:      '' (agg_fn lib ''mean'' (map FinalizeGas df))
           (agg_fn lib ''mean'' (map TotalGas df)),
         ''  Total:         '' @ format_f 0 True (agg_fn lib ''mean'' (map TotalGas df)) @
           '' gas'']\<rparr>)"
  by (simp add: analyze_basic_statistics_def Let_def seq_def bind_def banner_def print_def
      return_def)

lemma stats_tables:
  "take 4 (drop (length (stdout w) + 3) (stdout (snd (analyze_basic_statistics lib df w)))) =
     [''Total Gas by Operation:'',
      str_table lib (total_gas_by_operation lib df),
      newline @ newline @ ''Total Gas by Filter Complexity:'',
      str_table lib (total_gas_by_filter_complexity lib df)]"
  unfolding stats_run by simp

text \<open>
  Claim C6, amended. The reporter prints two tables of TotalGas. The table by Operation has
  one row per distinct Operation value with its mean, min, max and standard deviation. The
  table by FilterComplexity has one row per distinct FilterComplexity value with its mean,
  min and max only.
\<close>

theorem reporter_statistics:
  "fst (analyze_basic_statistics lib df w) = Inr () \<and>
   take 4 (drop (length (stdout w) + 3) (stdout (snd (analyze_basic_statistics lib df w)))) =
     [''Total Gas by Operation:'',
      str_table lib (total_gas_by_operation lib df),
      [CHR 0x0A, CHR 0x0A] @ ''Total Gas by Filter Complexity:'',
      str_table lib (total_gas_by_filter_complexity lib df)] \<and>
   total_gas_by_operation lib df =
     ([''mean'', ''min'', ''max'', ''std''],
      map (\<lambda>k. (k, [agg_fn lib ''mean'' (map TotalGas (filter (\<lambda>r. Operation r = Some k) df)),
                     agg_fn lib ''min'' (map TotalGas (filter (\<lambda>r. Operation r = Some k) df)),
                     agg_fn lib ''max'' (map TotalGas (filter (\<lambda>r. Operation r = Some k) df)),
                     agg_fn lib ''std'' (map TotalGas (filter (\<lambda>r. Operation r = Some k) df))]))
        (group_keys (map Operation df))) \<and>
   total_gas_by_filter_complexity lib df =
     ([''mean'', ''min'', ''max''],
      map (\<lambda>k. (k, [agg_fn lib ''mean''
                       (map TotalGas (filter (\<lambda>r. FilterComplexity r = Some k) df)),
                     agg_fn lib ''min''
                       (map TotalGas (filter (\<lambda>r. FilterComplexity r = Some k) df)),
                     agg_fn lib ''max''
                       (map TotalGas (filter (\<lambda>r. FilterComplexity r = Some k) df))]))
        (group_keys (map FilterComplexity df))) \<and>
   set (group_keys (map Operation df)) = {k. Some k \<in> set (map Operation df)} \<and>
   distinct (group_keys (map Operation df)) \<and>
   set (group_keys (map FilterComplexity df)) = {k. Some k \<in> set (map FilterComplexity df)} \<and>
   distinct (group_keys (map FilterComplexity df))"
proof -
  have a: "fst (analyze_basic_statistics lib df w) = Inr ()"
    unfolding stats_run by simp
  have b: "take 4 (drop (length (stdout w) + 3)
                    (stdout (snd (analyze_basic_statistics lib df w)))) =
     [''Total Gas by Operation:'',
      str_table lib (total_gas_by_operation lib df),
      [CHR 0x0A, CHR 0x0A] @ ''Total Gas by Filter Complexity:'',
      str_table lib (total_gas_by_filter_complexity lib df)]"
    unfolding stats_tables by (simp add: newline_def)
  have c: "total_gas_by_operation lib df =
     ([''mean'', ''min'', ''max'', ''std''],
      map (\<lambda>k. (k, [agg_fn lib ''mean'' (map TotalGas (filter (\<lambda>r. Operation r = Some k) df)),
                     agg_fn lib ''min'' (map TotalGas (filter (\<lambda>r. Operation r = Some k) df)),
                     agg_fn lib ''max'' (map TotalGas (filter (\<lambda>r. Operation r = Some k) df)),
                     agg_fn lib ''std'' (map TotalGas (filter (\<lambda>r. Operation r = Some k) df))]))
        (group_keys (map Operation df)))"
    unfolding total_gas_by_operation_def groupby_rows by simp
  have d: "total_gas_by_filter_complexity lib df =
     ([''mean'', ''min'', ''max''],
      map (\<lambda>k. (k, [agg_fn lib ''mean''
                       (map TotalGas (filter (\<lambda>r. FilterComplexity r = Some k) df)),
                     agg_fn lib ''min''
                       (map TotalGas (filter (\<lambda>r. FilterComplexity r = Some k) df)),
                     agg_fn lib ''max''
                       (map TotalGas (filter (\<lambda>r. FilterComplexity r = Some k) df))]))
        (group_keys (map FilterComplexity df)))"
    unfolding total_gas_by_filter_complexity_def groupby_rows by simp
  show ?thesis
    by (intro conjI a b c d set_group_keys distinct_group_keys)
qed

lemma sample_A_groups:
  "group_keys (map Operation (prepare table_A)) = [''COUNT'', ''SUM'']"
  "group_keys (map FilterComplexity (prepare table_A)) = [''complex'', ''none'', ''simple'']"
  by code_simp+

lemma sample_A_labels:
  "map Operation (prepare table_A) = [Some ''COUNT'', Some ''SUM'', Some ''COUNT'']"
  "map FilterComplexity (prepare table_A) = [Some ''none'', Some ''simple'', Some ''complex'']"
  by code_simp+

theorem reporter_statistics_witness:
  "fst (total_gas_by_operation sample_libs (prepare table_A)) = [''mean'', ''min'', ''max'', ''std'']
   \<and> map fst (snd (total_gas_by_operation sample_libs (prepare table_A))) = [''COUNT'', ''SUM'']
   \<and> fst (total_gas_by_filter_complexity sample_libs (prepare table_A))
       = [''mean'', ''min'', ''max'']
   \<and> map fst (snd (total_gas_by_filter_complexity sample_libs (prepare table_A)))
       = [''complex'', ''none'', ''simple'']
   \<and> set (group_keys (map Operation (prepare table_A))) = {''COUNT'', ''SUM''}
   \<and> fst (analyze_basic_statistics sample_libs (prepare table_A) world0) = Inr ()"
proof -
  note t = reporter_statistics[of sample_libs "prepare table_A" world0]
  from t have o: "total_gas_by_operation sample_libs (prepare table_A) =
     ([''mean'', ''min'', ''max'', ''std''],
      map (\<lambda>k. (k, [agg_fn sample_libs ''mean''
                       (map TotalGas (filter (\<lambda>r. Operation r = Some k) (prepare table_A))),
                     agg_fn sample_libs ''min''
                       (map TotalGas (filter (\<lambda>r. Operation r = Some k) (prepare table_A))),
                     agg_fn sample_libs ''max''
                       (map TotalGas (filter (\<lambda>r. Operation r = Some k) (prepare table_A))),
                     agg_fn sample_libs ''std''
                       (map TotalGas (filter (\<lambda>r. Operation r = Some k) (prepare table_A)))]))
        (group_keys (map Operation (prepare table_A))))"
    by blast
  from t have c: "total_gas_by_filter_complexity sample_libs (prepare table_A) =
     ([''mean'', ''min'', ''max''],
      map (\<lambda>k. (k, [agg_fn sample_libs ''mean''
                       (map TotalGas (filter (\<lambda>r. FilterComplexity r = Some k) (prepare table_A))),
                     agg_fn sample_libs ''min''
                       (map TotalGas (filter (\<lambda>r. FilterComplexity r = Some k) (prepare table_A))),
                     agg_fn sample_libs ''max''
                       (map TotalGas (filter (\<lambda>r. FilterComplexity r = Some k) (prepare table_A)))]))
        (group_keys (map FilterComplexity (prepare table_A))))"
    by blast
  from t have s: "set (group_keys (map Operation (prepare table_A)))
                    = {k. Some k \<in> set (map Operation (prepare table_A))}"
    and r: "fst (analyze_basic_statistics sample_libs (prepare table_A) world0) = Inr ()"
    by blast+
  have "{k. Some k \<in> set (map Operation (prepare table_A))} = {''COUNT'', ''SUM''}"
    unfolding sample_A_labels by auto
  with s have s': "set (group_keys (map Operation (prepare table_A))) = {''COUNT'', ''SUM''}"
    by (rule trans)
  have 1: "fst (total_gas_by_operation sample_libs (prepare table_A))
             = [''mean'', ''min'', ''max'', ''std'']"
    unfolding o by simp
  have 2: "map fst (snd (total_gas_by_operation sample_libs (prepare table_A)))
             = [''COUNT'', ''SUM'']"
    unfolding o sample_A_groups by simp
  have 3: "fst (total_gas_by_filter_complexity sample_libs (prepare table_A))
             = [''mean'', ''min'', ''max'']"
    unfolding c by simp
  have 4: "map fst (snd (total_gas_by_filter_complexity sample_libs (prepare table_A)))
             = [''complex'', ''none'', ''simple'']"
    unfolding c sample_A_groups by simp
  show ?thesis by (intro conjI 1 2 3 4 s' r)
qed

text \<open>
  Claim C6 as stated, that the standard deviation is also computed per FilterComplexity
  value, fails: on table A the table by FilterComplexity has the columns mean, min and max,
  and looking up std in it raises KeyError, while the table by Operation has the column.
\<close>

theorem reporter_std_counterexample:
  "fst (total_gas_by_operation sample_libs (prepare table_A)) = [''mean'', ''min'', ''max'', ''std'']
   \<and> fst (total_gas_by_filter_complexity sample_libs (prepare table_A))
       = [''mean'', ''min'', ''max'']
   \<and> ''std'' \<notin> set (fst (total_gas_by_filter_complexity sample_libs (prepare table_A)))
   \<and> map fst (snd (total_gas_by_filter_complexity sample_libs (prepare table_A)))
       = [''complex'', ''none'', ''simple'']
   \<and> loc (total_gas_by_filter_complexity sample_libs (prepare table_A)) ''none'' ''mean''
       = Inr (Finite 1)
   \<and> loc (total_gas_by_filter_complexity sample_libs (prepare table_A)) ''none'' ''std''
       = Inl (KeyError ''std'')
   \<and> loc (total_gas_by_operation sample_libs (prepare table_A)) ''COUNT'' ''std''
       = Inr (Finite 2)
   \<and> take 1 (drop 6 (stdout (snd (analyze_basic_statistics sample_libs (prepare table_A)
                                   world0))))
       = [str_table sample_libs (total_gas_by_filter_complexity sample_libs (prepare table_A))]"
proof -
  have 1: "fst (total_gas_by_operation sample_libs (prepare table_A))
             = [''mean'', ''min'', ''max'', ''std'']"
    by (simp add: total_gas_by_operation_def groupby_agg_def)
  have 2: "fst (total_gas_by_filter_complexity sample_libs (prepare table_A))
             = [''mean'', ''min'', ''max'']"
    by (simp add: total_gas_by_filter_complexity_def groupby_agg_def)
  have 3: "''std'' \<notin> set (fst (total_gas_by_filter_complexity sample_libs (prepare table_A)))"
    unfolding 2 by simp
  have 4: "map fst (snd (total_gas_by_filter_complexity sample_libs (prepare table_A)))
             = [''complex'', ''none'', ''simple'']"
    by (simp add: total_gas_by_filter_complexity_def groupby_labels sample_A_groups)
  have 5: "loc (total_gas_by_filter_complexity sample_libs (prepare table_A)) ''none'' ''mean''
             = Inr (Finite 1)"
    by code_simp
  have 6: "loc (total_gas_by_filter_complexity sample_libs (prepare table_A)) ''none'' ''std''
             = Inl (KeyError ''std'')"
    by code_simp
  have 7: "loc (total_gas_by_operation sample_libs (prepare table_A)) ''COUNT'' ''std''
             = Inr (Finite 2)"
    by code_simp
  have 8: "take 1 (drop 6 (stdout (snd (analyze_basic_statistics sample_libs (prepare table_A)
                                   world0))))
       = [str_table sample_libs (total_gas_by_filter_complexity sample_libs (prepare table_A))]"
    unfolding stats_run by (simp add: world0_def)
  show ?thesis by (intro conjI 1 2 3 4 5 6 7 8)
qed

section \<open>The two templates\<close>

lemma sublist_split:
  assumes "x \<notin> set P" and "sublist P (A @ x # B)"
  shows "sublist P A \<or> sublist P B"
proof -
  from assms(2) consider "sublist P A" | "sublist P (x # B)"
    | xs1 xs2 where "P = xs1 @ xs2" "suffix xs1 A" "prefix xs2 (x # B)"
    unfolding sublist_append by blast
  then show ?thesis
  proof cases
    case 1
    then show ?thesis ..
  next
    case 2
    then have "prefix P (x # B) \<or> sublist P B" by (simp add: sublist_Cons_right)
    then show ?thesis
    proof
      assume "prefix P (x # B)"
      with assms(1) have "P = []" by (auto simp: prefix_Cons)
      then show ?thesis by simp
    qed simp
  next
    case 3
    from 3(3) assms(1) 3(1) have "xs2 = []" by (auto simp: prefix_Cons)
    with 3(1,2) have "suffix P A" by simp
    then show ?thesis by (simp add: suffix_imp_sublist)
  qed
qed

lemma sublist_skip:
  assumes "set N \<inter> set P = {}" and "sublist P (N @ B)"
  shows "sublist P B"
  using assms
proof (induction N)
  case Nil
  then show ?case by simp
next
  case (Cons x N)
  from Cons.prems(1) have x: "x \<notin> set P" and n: "set N \<inter> set P = {}" by auto
  from Cons.prems(2) have "sublist P ([] @ x # (N @ B))" by simp
  from sublist_split[OF x this] have "sublist P (N @ B)" by auto
  from Cons.IH[OF n this] show ?case .
qed

lemma sublist_delete:
  assumes "set N \<inter> set P = {}" and "sublist P (A @ N @ B)"
  shows "sublist P (A @ B)"
proof (cases N)
  case Nil
  with assms(2) show ?thesis by simp
next
  case (Cons x N')
  from assms(1) Cons have x: "x \<notin> set P" and n: "set N' \<inter> set P = {}" by auto
  from assms(2) Cons have "sublist P (A @ x # (N' @ B))" by simp
  from sublist_split[OF x this] show ?thesis
  proof
    assume "sublist P A"
    then show ?thesis
      by (rule sublist_order.order.trans) (rule sublist_append_rightI)
  next
    assume "sublist P (N' @ B)"
    from sublist_skip[OF n this] show ?thesis
      by (rule sublist_order.order.trans) (rule sublist_append_leftI)
  qed
qed

lemma unlines_Cons: "unlines (l # ls) = l @ CHR 0x0A # unlines ls"
  by (simp add: unlines_def newline_def)

lemma unlines_Nil: "unlines [] = []"
  by (simp add: unlines_def)

lemma sublist_unlines:
  assumes "CHR 0x0A \<notin> set P" and "P \<noteq> []" and "sublist P (unlines ls)"
  shows "list_ex (sublist P) ls"
  using assms(3)
proof (induction ls)
  case Nil
  with assms(2) show ?case by (simp add: unlines_Nil)
next
  case (Cons l ls)
  from Cons.prems have "sublist P (l @ CHR 0x0A # unlines ls)" by (simp add: unlines_Cons)
  from sublist_split[OF assms(1) this] Cons.IH show ?case by auto
qed

lemma line_in_unlines:
  assumes "l \<in> set ls"
  shows "sublist l (unlines ls)"
  using assms
proof (induction ls)
  case Nil
  then show ?case by simp
next
  case (Cons a ls)
  show ?case
  proof (cases "l = a")
    case True
    then show ?thesis by (simp add: unlines_Cons)
  next
    case False
    with Cons have "sublist l (unlines ls)" by simp
    moreover have "sublist (unlines ls) ((a @ [CHR 0x0A]) @ unlines ls)"
      by (rule sublist_append_leftI)
    ultimately show ?thesis
      unfolding unlines_Cons by (auto intro: sublist_order.order.trans)
  qed
qed

lemma digit_char_digit: "k < 10 \<Longrightarrow> digit_char k \<in> set ''0123456789''"
  unfolding digit_char_def by (rule nth_mem) simp

lemma show_nat_digits: "set (show_nat n) \<subseteq> set ''0123456789''"
proof (induction n rule: show_nat.induct)
  case (1 n)
  show ?case
  proof (cases "n < 10")
    case True
    have "show_nat n = [digit_char n]"
      using True by (subst show_nat.simps) (simp del: show_nat.simps)
    with digit_char_digit[OF True] show ?thesis by (simp del: show_nat.simps)
  next
    case False
    have s: "show_nat n = show_nat (n div 10) @ [digit_char (n mod 10)]"
      using False by (subst show_nat.simps) (simp del: show_nat.simps)
    have "n mod 10 < 10" by simp
    from digit_char_digit[OF this] 1[OF False] show ?thesis
      unfolding s by (simp del: show_nat.simps)
  qed
qed

lemma digits_number_chars: "set ''0123456789'' \<subseteq> number_chars"
  by (simp add: number_chars_def)

lemma fmt0_chars: "set (fmt0 x) \<subseteq> number_chars"
proof (cases x)
  case (Finite q)
  have "set (fmt0 x) \<subseteq> {CHR ''-''} \<union> set (show_nat (nat (round_half_even \<bar>q\<bar>)))"
    unfolding Finite fmt0_def
    by (auto simp add: fixed_digits_def Let_def simp del: show_nat.simps)
  also have "\<dots> \<subseteq> {CHR ''-''} \<union> set ''0123456789''"
    using show_nat_digits by blast
  also have "\<dots> \<subseteq> number_chars" by (simp add: number_chars_def)
  finally show ?thesis .
next
  case NegZero
  have "set (fmt0 x) \<subseteq> {CHR ''-''} \<union> set (show_nat 0)"
    unfolding NegZero fmt0_def by (simp add: fixed_digits_def Let_def del: show_nat.simps)
  also have "\<dots> \<subseteq> {CHR ''-''} \<union> set ''0123456789''"
    using show_nat_digits by blast
  also have "\<dots> \<subseteq> number_chars" by (simp add: number_chars_def)
  finally show ?thesis .
next
  case PosInf
  then show ?thesis by (simp add: fmt0_def number_chars_def)
next
  case NegInf
  then show ?thesis by (simp add: fmt0_def number_chars_def)
next
  case NaN
  then show ?thesis by (simp add: fmt0_def number_chars_def)
qed

lemma fmt0_apart: "set (fmt0 x) \<inter> set ''* c'' = {}"
proof -
  have "number_chars \<inter> set ''* c'' = {}" by (simp add: number_chars_def)
  with fmt0_chars[of x] show ?thesis by blast
qed

lemma no_product_line:
  assumes "\<not> sublist ''* c'' (A @ B)"
  shows "\<not> sublist ''* c'' (A @ fmt0 x @ B)"
  using assms sublist_delete[OF fmt0_apart] by blast

lemma without_lines:
  "list_all (\<lambda>l. \<not> sublist ''* c'' l) (template_without i r c f ops)"
  unfolding template_without_def list.pred_inject
  by (intro conjI no_product_line TrueI; code_simp)

lemma without_no_star_c:
  "\<not> sublist ''* c'' ([CHR 0x0A] @ unlines (template_without i r c f ops))"
proof
  assume "sublist ''* c'' ([CHR 0x0A] @ unlines (template_without i r c f ops))"
  then have "sublist ''* c'' (unlines ([] # template_without i r c f ops))"
    by (simp add: unlines_Cons)
  then have "list_ex (sublist ''* c'') ([] # template_without i r c f ops)"
    by (intro sublist_unlines) simp_all
  then have "list_ex (sublist ''* c'') (template_without i r c f ops)" by simp
  with without_lines[of i r c f ops] show False
    by (auto simp: list_ex_iff list_all_iff)
qed

lemma without_no_product:
  "\<not> sublist ''rows * columns'' ([CHR 0x0A] @ unlines (template_without i r c f ops))"
proof
  assume a: "sublist ''rows * columns'' ([CHR 0x0A] @ unlines (template_without i r c f ops))"
  have "sublist ''* c'' (''rows '' @ ''* c'' @ ''olumns'')" by (rule sublist_appendI)
  then have "sublist ''* c'' ''rows * columns''" by simp
  from sublist_order.order.trans[OF this a] without_no_star_c show False by blast
qed

lemma with_line:
  "template_with i r c x f ops ! 28 = ''  gas += (rows * columns) * '' @ fmt0 x @ '';''"
  by (simp add: template_with_def)

lemma with_length: "length (template_with i r c x f ops) = 51"
  by (simp add: template_with_def)

lemma with_product:
  "sublist (''  gas += (rows * columns) * '' @ fmt0 x @ '';'')
     ([CHR 0x0A] @ unlines (template_with i r c x f ops))"
proof -
  have "template_with i r c x f ops ! 28 \<in> set (template_with i r c x f ops)"
    by (rule nth_mem) (simp add: with_length)
  then have "''  gas += (rows * columns) * '' @ fmt0 x @ '';''
               \<in> set (template_with i r c x f ops)"
    unfolding with_line .
  from line_in_unlines[OF this] show ?thesis
    by (rule sublist_order.order.trans) (rule sublist_append_leftI)
qed

lemma estimator_code_cases:
  "estimator_code m cd =
     (if ''Rows_x_Columns'' \<in> set (map Feature cd)
      then [CHR 0x0A] @ unlines
             (template_with (model_intercept m) (coefficient_of ''Rows'' cd)
                (coefficient_of ''Columns'' cd) (coefficient_of ''Rows_x_Columns'' cd)
                (coefficient_of ''FilterBytes'' cd) (op_coefs cd))
      else [CHR 0x0A] @ unlines
             (template_without (model_intercept m) (coefficient_of ''Rows'' cd)
                (coefficient_of ''Columns'' cd) (coefficient_of ''FilterBytes'' cd)
                (op_coefs cd)))"
  by (simp add: estimator_code_def Let_def newline_def)

text \<open>
  Claim C2. The generated text is one of two templates, chosen by whether the coefficient
  table has the feature Rows_x_Columns. The two texts are never equal, whatever the
  coefficients: the text with the interaction has a line that multiplies rows by columns,
  and the text without it contains no product of rows and columns at all.
\<close>

theorem two_templates:
  "(''Rows_x_Columns'' \<in> set (map Feature cd) \<longrightarrow>
      estimator_code m cd =
        [CHR 0x0A] @ unlines
          (template_with (model_intercept m) (coefficient_of ''Rows'' cd)
             (coefficient_of ''Columns'' cd) (coefficient_of ''Rows_x_Columns'' cd)
             (coefficient_of ''FilterBytes'' cd) (op_coefs cd)) \<and>
      sublist (''  gas += (rows * columns) * '' @
               format_f 0 False (coefficient_of ''Rows_x_Columns'' cd) @ '';'')
        (estimator_code m cd)) \<and>
   (''Rows_x_Columns'' \<notin> set (map Feature cd) \<longrightarrow>
      estimator_code m cd =
        [CHR 0x0A] @ unlines
          (template_without (model_intercept m) (coefficient_of ''Rows'' cd)
             (coefficient_of ''Columns'' cd) (coefficient_of ''FilterBytes'' cd) (op_coefs cd)) \<and>
      \<not> sublist ''rows * columns'' (estimator_code m cd) \<and>
      (''Rows_x_Columns'' \<in> set (map Feature cd') \<longrightarrow>
         estimator_code m cd \<noteq> estimator_code m' cd'))"
proof (intro conjI impI)
  assume a: "''Rows_x_Columns'' \<in> set (map Feature cd)"
  show "estimator_code m cd =
        [CHR 0x0A] @ unlines
          (template_with (model_intercept m) (coefficient_of ''Rows'' cd)
             (coefficient_of ''Columns'' cd) (coefficient_of ''Rows_x_Columns'' cd)
             (coefficient_of ''FilterBytes'' cd) (op_coefs cd))"
    unfolding estimator_code_cases[of m cd] using a by simp
  show "sublist (''  gas += (rows * columns) * '' @
               format_f 0 False (coefficient_of ''Rows_x_Columns'' cd) @ '';'')
        (estimator_code m cd)"
    unfolding estimator_code_cases[of m cd] using a with_product
    by (simp add: fmt0_def)
next
  assume a: "''Rows_x_Columns'' \<notin> set (map Feature cd)"
  show e: "estimator_code m cd =
        [CHR 0x0A] @ unlines
          (template_without (model_intercept m) (coefficient_of ''Rows'' cd)
             (coefficient_of ''Columns'' cd) (coefficient_of ''FilterBytes'' cd) (op_coefs cd))"
    unfolding estimator_code_cases[of m cd] using a by simp
  show n: "\<not> sublist ''rows * columns'' (estimator_code m cd)"
    unfolding e by (rule without_no_product)
  assume b: "''Rows_x_Columns'' \<in> set (map Feature cd')"
  have "sublist (''  gas += (rows * columns) * '' @
               fmt0 (coefficient_of ''Rows_x_Columns'' cd') @ '';'')
        (estimator_code m' cd')"
    unfolding estimator_code_cases[of m' cd'] using b with_product by simp
  moreover have "sublist ''rows * columns''
       ((''  gas += ('') @ ''rows * columns'' @
        ('') * '' @ fmt0 (coefficient_of ''Rows_x_Columns'' cd') @ '';''))"
    by (rule sublist_appendI)
  then have "sublist ''rows * columns'' (''  gas += (rows * columns) * '' @
               fmt0 (coefficient_of ''Rows_x_Columns'' cd') @ '';'')"
    by simp
  ultimately have "sublist ''rows * columns'' (estimator_code m' cd')"
    by (rule sublist_order.order.trans[rotated])
  with n show "estimator_code m cd \<noteq> estimator_code m' cd'" by auto
qed

lemma format_two: "format_f 0 False (Finite 2) = ''2''"
  by code_simp

theorem two_templates_witness:
  "''Rows_x_Columns'' \<in> set (map Feature
      [\<lparr>Feature = ''Rows_x_Columns'', Coefficient = Finite 2, Impact = Finite 2\<rparr>]) \<and>
   ''Rows_x_Columns'' \<notin> set (map Feature
      [\<lparr>Feature = ''Rows'', Coefficient = Finite 2, Impact = Finite 2\<rparr>]) \<and>
   sublist ''  gas += (rows * columns) * 2;''
     (estimator_code \<lparr>model_intercept = Finite 5, model_coef = [Finite 2]\<rparr>
        [\<lparr>Feature = ''Rows_x_Columns'', Coefficient = Finite 2, Impact = Finite 2\<rparr>]) \<and>
   \<not> sublist ''rows * columns''
     (estimator_code \<lparr>model_intercept = Finite 5, model_coef = [Finite 2]\<rparr>
        [\<lparr>Feature = ''Rows'', Coefficient = Finite 2, Impact = Finite 2\<rparr>]) \<and>
   estimator_code \<lparr>model_intercept = Finite 5, model_coef = [Finite 2]\<rparr>
        [\<lparr>Feature = ''Rows'', Coefficient = Finite 2, Impact = Finite 2\<rparr>]
     \<noteq> estimator_code \<lparr>model_intercept = Finite 5, model_coef = [Finite 2]\<rparr>
        [\<lparr>Feature = ''Rows_x_Columns'', Coefficient = Finite 2, Impact = Finite 2\<rparr>]"
proof -
  let ?m = "\<lparr>model_intercept = Finite 5, model_coef = [Finite 2]\<rparr>"
  let ?w = "[\<lparr>Feature = ''Rows_x_Columns'', Coefficient = Finite 2, Impact = Finite 2\<rparr>]"
  let ?o = "[\<lparr>Feature = ''Rows'', Coefficient = Finite 2, Impact = Finite 2\<rparr>]"
  have a: "''Rows_x_Columns'' \<in> set (map Feature ?w)" by simp
  have b: "''Rows_x_Columns'' \<notin> set (map Feature ?o)" by simp
  have c: "coefficient_of ''Rows_x_Columns'' ?w = Finite 2" by (simp add: coefficient_of_def)
  from two_templates[of ?w ?m] a
  have "sublist (''  gas += (rows * columns) * '' @
               format_f 0 False (coefficient_of ''Rows_x_Columns'' ?w) @ '';'')
        (estimator_code ?m ?w)"
    by blast
  then have 1: "sublist ''  gas += (rows * columns) * 2;'' (estimator_code ?m ?w)"
    unfolding c format_two by simp
  from two_templates[of ?o ?m ?w ?m] a b
  have 2: "\<not> sublist ''rows * columns'' (estimator_code ?m ?o)"
    and 3: "estimator_code ?m ?o \<noteq> estimator_code ?m ?w"
    by blast+
  show ?thesis by (intro conjI a b 1 2 3)
qed

end
